theory Spec2Isabelle
  imports Complex_Main "HOL-Library.Word" "HOL-Library.AList"
begin

section \<open>Go strings\<close>

text \<open>
  A Go string is a byte sequence; \<open>string\<close> (a list of 8-bit characters) models it.
  The helpers below are the functions of package \<open>strings\<close> that the provider calls,
  each at the only shape of call the source makes.
\<close>

definition HasPrefix :: "string \<Rightarrow> string \<Rightarrow> bool" where
  \<comment> \<open>\<open>strings.HasPrefix(s, p)\<close>\<close>
  "HasPrefix s p = (take (length p) s = p)"

fun Index :: "string \<Rightarrow> char \<Rightarrow> int" where
  \<comment> \<open>\<open>strings.Index(s, c)\<close> for a one-byte \<open>c\<close>: the first position of \<open>c\<close>, or \<open>-1\<close>\<close>
  "Index [] c = - 1"
| "Index (x # xs) c =
     (if x = c then 0 else (let i = Index xs c in if i < 0 then - 1 else i + 1))"

definition SplitN2 :: "string \<Rightarrow> char \<Rightarrow> string list" where
  \<comment> \<open>\<open>strings.SplitN(s, c, 2)\<close> for a one-byte \<open>c\<close>: split at the first \<open>c\<close> only\<close>
  "SplitN2 s c =
     (if c \<in> set s
      then [takeWhile (\<lambda>x. x \<noteq> c) s, tl (dropWhile (\<lambda>x. x \<noteq> c) s)]
      else [s])"

definition ReplaceAll :: "string \<Rightarrow> char \<Rightarrow> char \<Rightarrow> string" where
  \<comment> \<open>\<open>strings.ReplaceAll(s, old, new)\<close> for one-byte \<open>old\<close> and \<open>new\<close>\<close>
  "ReplaceAll s old new = map (\<lambda>x. if x = old then new else x) s"

section \<open>Values on both sides of the provider\<close>

type_synonym int64 = "64 word"

text \<open>
  A value of Go's \<open>any\<close> as the provider meets it: what the JSON decoder produces for the
  server's state (\<open>nil\<close>, \<open>bool\<close>, \<open>float64\<close>, \<open>string\<close>, \<open>[]interface{}\<close>,
  \<open>map[string]interface{}\<close>), what attribute extraction stores (\<open>int64\<close> as well), and
  \<open>int\<close>, which the decoder of the source tests for. Go's \<open>int\<close> is taken as 64 bits
  wide, so its conversion to \<open>int64\<close> changes nothing. \<open>'f\<close> stands for \<open>float64\<close>,
  whose arithmetic is not modelled. A Go map is an association list with distinct keys.
\<close>

datatype 'f dyn =
    DNil
  | DBool bool
  | DFloat64 'f
  | DInt int64
  | DInt64 int64
  | DString string
  | DSlice "'f dyn list"
  | DMap "(string \<times> 'f dyn) list"

text \<open>The framework's \<open>attr.Type\<close>.\<close>

datatype attr_type =
    BoolType
  | Int64Type
  | Float64Type
  | StringType
  | ListType attr_type
  | MapType attr_type
  | ObjectType "(string \<times> attr_type) list"

text \<open>
  The framework's \<open>attr.Value\<close>: every type has its own null and its own unknown, and a
  list, a map and an object carry their element types.
\<close>

datatype 'f attr_value =
    BoolNull | BoolUnknown | BoolValue bool
  | Int64Null | Int64Unknown | Int64Value int64
  | Float64Null | Float64Unknown | Float64Value 'f
  | StringNull | StringUnknown | StringValue string
  | ListNull attr_type | ListUnknown attr_type | ListValue attr_type "'f attr_value list"
  | MapNull attr_type | MapUnknown attr_type | MapValue attr_type "(string \<times> 'f attr_value) list"
  | ObjectNull "(string \<times> attr_type) list"
  | ObjectUnknown "(string \<times> attr_type) list"
  | ObjectValue "(string \<times> attr_type) list" "(string \<times> 'f attr_value) list"

fun TypeOf :: "'f attr_value \<Rightarrow> attr_type" where
  \<comment> \<open>\<open>attr.Value.Type\<close>\<close>
  "TypeOf BoolNull = BoolType"
| "TypeOf BoolUnknown = BoolType"
| "TypeOf (BoolValue b) = BoolType"
| "TypeOf Int64Null = Int64Type"
| "TypeOf Int64Unknown = Int64Type"
| "TypeOf (Int64Value n) = Int64Type"
| "TypeOf Float64Null = Float64Type"
| "TypeOf Float64Unknown = Float64Type"
| "TypeOf (Float64Value x) = Float64Type"
| "TypeOf StringNull = StringType"
| "TypeOf StringUnknown = StringType"
| "TypeOf (StringValue s) = StringType"
| "TypeOf (ListNull e) = ListType e"
| "TypeOf (ListUnknown e) = ListType e"
| "TypeOf (ListValue e xs) = ListType e"
| "TypeOf (MapNull e) = MapType e"
| "TypeOf (MapUnknown e) = MapType e"
| "TypeOf (MapValue e kvs) = MapType e"
| "TypeOf (ObjectNull ts) = ObjectType ts"
| "TypeOf (ObjectUnknown ts) = ObjectType ts"
| "TypeOf (ObjectValue ts kvs) = ObjectType ts"

fun IsNull :: "'f attr_value \<Rightarrow> bool" where
  "IsNull BoolNull = True"
| "IsNull Int64Null = True"
| "IsNull Float64Null = True"
| "IsNull StringNull = True"
| "IsNull (ListNull e) = True"
| "IsNull (MapNull e) = True"
| "IsNull (ObjectNull ts) = True"
| "IsNull v = False"

fun IsUnknown :: "'f attr_value \<Rightarrow> bool" where
  "IsUnknown BoolUnknown = True"
| "IsUnknown Int64Unknown = True"
| "IsUnknown Float64Unknown = True"
| "IsUnknown StringUnknown = True"
| "IsUnknown (ListUnknown e) = True"
| "IsUnknown (MapUnknown e) = True"
| "IsUnknown (ObjectUnknown ts) = True"
| "IsUnknown v = False"

text \<open>
  \<open>types.ListValue\<close> and \<open>types.MapValue\<close> of the framework report an error when an
  element is not of the element type; their callers in the source then return the typed
  null, which is the only use made of the error.
\<close>

definition ListValueOK :: "attr_type \<Rightarrow> 'f attr_value list \<Rightarrow> bool" where
  "ListValueOK elemType elems = list_all (\<lambda>e. TypeOf e = elemType) elems"

definition MapValueOK :: "attr_type \<Rightarrow> (string \<times> 'f attr_value) list \<Rightarrow> bool" where
  "MapValueOK elemType elems = list_all (\<lambda>(k, e). TypeOf e = elemType) elems"

text \<open>
  What the source takes from Go's runtime and standard library: the conversions between
  \<open>float64\<close> and the integers, \<open>fmt.Sprintf("%v", v)\<close> on a dynamic value and on a
  framework value, and \<open>time.Parse\<close> and \<open>Time.Format\<close> with the layout
  \<open>time.RFC3339\<close> (\<open>'t\<close> stands for \<open>time.Time\<close>).
\<close>

record ('f, 't) golib =
  float_to_int64 :: "'f \<Rightarrow> int64"
  int_to_float :: "int64 \<Rightarrow> 'f"
  sprint :: "'f dyn \<Rightarrow> string"
  sprint_value :: "'f attr_value \<Rightarrow> string"
  parse_rfc3339 :: "string \<Rightarrow> 't option"
  format_rfc3339 :: "'t \<Rightarrow> string"

section \<open>Type coercer (schema.go)\<close>

function kaiakTypeToAttrType :: "string \<Rightarrow> attr_type"
  and kaiakMapElemType :: "string \<Rightarrow> attr_type" where
  "kaiakTypeToAttrType t =
     (if t = ''bool'' then BoolType
      else if t = ''int'' \<or> t = ''uint'' then Int64Type
      else if t = ''float'' then Float64Type
      else if HasPrefix t ''[]'' then ListType (kaiakTypeToAttrType (drop 2 t))
      else if HasPrefix t ''map['' then MapType (kaiakMapElemType t)
      else StringType)"
| "kaiakMapElemType t =
     (let idx = Index t CHR '']'' in
      if idx \<ge> 0 \<and> idx + 1 < int (length t)
      then kaiakTypeToAttrType (drop (nat (idx + 1)) t)
      else StringType)"
  by pat_completeness auto
termination
proof (relation "measure (\<lambda>x. case x of Inl t \<Rightarrow> 2 * length t + 1 | Inr t \<Rightarrow> 2 * length t)",
    goal_cases)
  case 1
  show ?case by simp
next
  case (2 t)
  from \<open>HasPrefix t ''[]''\<close> have "length t \<noteq> 0"
    by (auto simp: HasPrefix_def)
  then show ?case by simp
next
  case (3 t)
  show ?case by simp
next
  case (4 t idx)
  then have "0 < nat (idx + 1)" and "nat (idx + 1) < length t"
    by auto
  then have "length t - nat (idx + 1) < length t"
    by arith
  then show ?case by simp
qed

declare kaiakTypeToAttrType.simps [simp del] kaiakMapElemType.simps [simp del]

definition kaiakNullValue :: "string \<Rightarrow> 'f attr_value" where
  "kaiakNullValue t =
     (if t = ''bool'' then BoolNull
      else if t = ''int'' \<or> t = ''uint'' then Int64Null
      else if t = ''float'' then Float64Null
      else if HasPrefix t ''[]'' then ListNull (kaiakTypeToAttrType (drop 2 t))
      else if HasPrefix t ''map['' then MapNull (kaiakMapElemType t)
      else StringNull)"

text \<open>
  The tail of \<open>kaiakValueToTF\<close>, reached when no case of the switch returned: the value
  is rendered as a string. The warning it logs first (for every tag but \<open>string\<close>,
  \<open>duration\<close> and \<open>ref\<close>) goes to the logger and changes no result, and neither does
  the warning of \<open>kaiakMapToTF\<close> for a map type without a value type.
\<close>

definition coerceToString :: "('f, 't) golib \<Rightarrow> 'f dyn \<Rightarrow> 'f attr_value" where
  "coerceToString lib v = StringValue (sprint lib v)"

function kaiakValueToTF :: "('f, 't) golib \<Rightarrow> 'f dyn \<Rightarrow> string \<Rightarrow> 'f attr_value"
  and kaiakSliceToTF :: "('f, 't) golib \<Rightarrow> 'f dyn \<Rightarrow> string \<Rightarrow> 'f attr_value"
  and kaiakMapToTF :: "('f, 't) golib \<Rightarrow> 'f dyn \<Rightarrow> string \<Rightarrow> 'f attr_value" where
  "kaiakValueToTF lib v t =
     (if v = DNil then kaiakNullValue t
      else if t = ''bool'' then
        (case v of DBool b \<Rightarrow> BoolValue b | _ \<Rightarrow> coerceToString lib v)
      else if t = ''int'' \<or> t = ''uint'' then
        (case v of
           DFloat64 n \<Rightarrow> Int64Value (float_to_int64 lib n)
         | DInt n \<Rightarrow> Int64Value n
         | _ \<Rightarrow> coerceToString lib v)
      else if t = ''float'' then
        (case v of
           DFloat64 n \<Rightarrow> Float64Value n
         | DInt n \<Rightarrow> Float64Value (int_to_float lib n)
         | _ \<Rightarrow> coerceToString lib v)
      else if HasPrefix t ''[]'' then kaiakSliceToTF lib v t
      else if HasPrefix t ''map['' then kaiakMapToTF lib v t
      else if t = ''time'' then
        (case v of
           DString s \<Rightarrow>
             (case parse_rfc3339 lib s of
                Some parsed \<Rightarrow> StringValue (format_rfc3339 lib parsed)
              | None \<Rightarrow> StringValue s)
         | _ \<Rightarrow> coerceToString lib v)
      else coerceToString lib v)"
| "kaiakSliceToTF lib v t =
     (let elemType = kaiakTypeToAttrType (drop 2 t) in
      case v of
        DSlice items \<Rightarrow>
          (let elems = map (\<lambda>item. kaiakValueToTF lib item (drop 2 t)) items in
           if ListValueOK elemType elems then ListValue elemType elems
           else ListNull elemType)
      | _ \<Rightarrow> ListNull elemType)"
| "kaiakMapToTF lib v t =
     (let elemType = kaiakMapElemType t in
      case v of
        DMap items \<Rightarrow>
          (let idx = Index t CHR '']'' in
           if idx < 0 \<or> idx + 1 \<ge> int (length t) then MapNull StringType
           else
             (let valType = drop (nat (idx + 1)) t;
                  elems = map (\<lambda>kv. (fst kv, kaiakValueToTF lib (snd kv) valType)) items in
              if MapValueOK elemType elems then MapValue elemType elems
              else MapNull elemType))
      | _ \<Rightarrow> MapNull elemType)"
  by pat_completeness auto
termination
proof (relation "measure (\<lambda>x. case x of
          Inl (lib, v, t) \<Rightarrow> 2 * size v + 1
        | Inr (Inl (lib, v, t)) \<Rightarrow> 2 * size v
        | Inr (Inr (lib, v, t)) \<Rightarrow> 2 * size v)", goal_cases)
  case 1
  show ?case by simp
next
  case 2
  then show ?case by simp
next
  case 3
  then show ?case by simp
next
  case (4 lib v t elemType items item)
  then have "size item < Suc (size_list size items)"
    by (simp add: less_Suc_eq_le size_list_estimation')
  with 4 show ?case by simp
next
  case (5 lib v t elemType items idx valType kv)
  then have "size (snd kv) < Suc (size_list (size_prod (\<lambda>_. 0) size) items)"
    by (cases kv) (auto simp: less_Suc_eq_le intro!: size_list_estimation')
  with 5 show ?case by simp
qed

declare kaiakValueToTF.simps [simp del] kaiakSliceToTF.simps [simp del]
  kaiakMapToTF.simps [simp del]

section \<open>Schema translator (schema.go)\<close>

text \<open>
  \<open>schema.Attribute\<close> of the server's package: the descriptor of one attribute, with the
  fields the provider reads.
\<close>

record Attribute =
  Name :: string
  Type :: string
  Description :: string
  Required :: bool
  ReadOnly :: bool
  Sensitive :: bool
  Reference :: bool

record attrInfo =
  kaiakName :: string
  tfBlock :: string
  tfField :: string
  attr :: Attribute

text \<open>
  The framework's schema attributes. The five fields every leaf attribute of the source
  sets are one record; a field the source leaves out has Go's zero value.
\<close>

record tf_flags =
  tf_Description :: string
  tf_Required :: bool
  tf_Optional :: bool
  tf_Computed :: bool
  tf_Sensitive :: bool

datatype planmodifier = RequiresReplace | UseStateForUnknown

datatype tf_attribute =
    StringAttribute tf_flags "planmodifier list"
  | BoolAttribute tf_flags
  | Int64Attribute tf_flags
  | Float64Attribute tf_flags
  | ListAttribute tf_flags attr_type
  | MapAttribute tf_flags attr_type
  | SingleNestedAttribute "(string \<times> tf_attribute) list" tf_flags

record tf_schema =
  schema_Description :: string
  Attributes :: "string \<rightharpoonup> tf_attribute"

definition empty_schema :: tf_schema where
  \<comment> \<open>\<open>tfschema.Schema{}\<close>\<close>
  "empty_schema = \<lparr>schema_Description = [], Attributes = Map.empty\<rparr>"

text \<open>
  A diagnostic has a severity, a summary and a detail. The detail is either a given text
  (an error's message) or \<open>fmt.Sprintf\<close> of a format with its arguments, kept apart;
  two details are the same when they are the same text, or the same format with the
  same arguments.
\<close>

datatype detail = Text string | Sprintf string "string list"

datatype diagnostic = ErrorDiag string detail | WarningDiag string detail

fun IsError :: "diagnostic \<Rightarrow> bool" where
  "IsError (ErrorDiag s d) = True"
| "IsError (WarningDiag s d) = False"

definition HasError :: "diagnostic list \<Rightarrow> bool" where
  "HasError diags = list_ex IsError diags"

text \<open>
  \<open>Diagnostics.Append\<close> of the framework adds each diagnostic that the collection does
  not yet contain; \<open>AddError\<close> and \<open>AddWarning\<close> are \<open>Append\<close> of one diagnostic.
\<close>

definition addDiag :: "diagnostic list \<Rightarrow> diagnostic \<Rightarrow> diagnostic list" where
  "addDiag diags d = (if d \<in> set diags then diags else diags @ [d])"

definition Append :: "diagnostic list \<Rightarrow> diagnostic list \<Rightarrow> diagnostic list" where
  "Append diags new = foldl addDiag diags new"

definition newAttrInfo :: "Attribute \<Rightarrow> attrInfo" where
  "newAttrInfo a =
     (let parts = SplitN2 (Name a) CHR ''.'' in
      if length parts = 2
      then \<lparr>kaiakName = Name a, tfBlock = parts ! 0,
            tfField = ReplaceAll (parts ! 1) CHR ''.'' CHR ''_'', attr = a\<rparr>
      else \<lparr>kaiakName = Name a, tfBlock = [], tfField = Name a, attr = a\<rparr>)"

definition kaiakAttrToTF :: "Attribute \<Rightarrow> tf_attribute" where
  "kaiakAttrToTF a =
     (let opt = (\<not> Required a \<and> \<not> ReadOnly a);
          computed = (ReadOnly a \<or> opt);
          flags = \<lparr>tf_Description = Description a, tf_Required = Required a,
                   tf_Optional = opt, tf_Computed = computed, tf_Sensitive = Sensitive a\<rparr>
      in if Type a = ''bool'' then BoolAttribute flags
         else if Type a = ''int'' \<or> Type a = ''uint'' then Int64Attribute flags
         else if Type a = ''float'' then Float64Attribute flags
         else if HasPrefix (Type a) ''[]''
           then ListAttribute flags (kaiakTypeToAttrType (drop 2 (Type a)))
         else if HasPrefix (Type a) ''map[''
           then MapAttribute flags (kaiakMapElemType (Type a))
         else StringAttribute flags [])"

definition reserved :: "string \<Rightarrow> bool" where
  "reserved n = (n = ''name'' \<or> n = ''id'')"

definition seenKey :: "attrInfo \<Rightarrow> string" where
  "seenKey info = tfBlock info @ ''/'' @ tfField info"

text \<open>
  The first loop of \<open>buildResourceSchema\<close>: the state is the list \<open>infos\<close>, the map
  \<open>seen\<close> and the diagnostics.
\<close>

fun collectInfos :: "string \<Rightarrow> Attribute list \<Rightarrow>
    attrInfo list \<times> (string \<rightharpoonup> string) \<times> diagnostic list \<Rightarrow>
    attrInfo list \<times> (string \<rightharpoonup> string) \<times> diagnostic list" where
  "collectInfos resourceName [] st = st"
| "collectInfos resourceName (a # as) (infos, seen, diags) =
     (let info = newAttrInfo a in
      if tfBlock info = [] \<and> reserved (tfField info) then
        collectInfos resourceName as (infos, seen, Append diags
          [ErrorDiag ''Reserved attribute name''
             (Sprintf ''Resource %q: attribute %q conflicts with reserved terraform attribute %q''
                [resourceName, Name a, tfField info])])
      else
        (case seen (seenKey info) of
           Some prev \<Rightarrow>
             collectInfos resourceName as (infos, seen, Append diags
               [ErrorDiag ''Attribute naming collision''
                  (Sprintf ''Resource %q: attributes %q and %q both map to terraform field %q (block %q)''
                     [resourceName, prev, Name a, tfField info, tfBlock info])])
         | None \<Rightarrow>
             collectInfos resourceName as
               (infos @ [info], seen(seenKey info \<mapsto> Name a), diags)))"

definition fixedAttrs :: "string \<rightharpoonup> tf_attribute" where
  "fixedAttrs =
     [''name'' \<mapsto> StringAttribute
         \<lparr>tf_Description = ''Instance label (e.g. \"main\").'', tf_Required = True,
          tf_Optional = False, tf_Computed = False, tf_Sensitive = False\<rparr>
         [RequiresReplace],
      ''id'' \<mapsto> StringAttribute
         \<lparr>tf_Description = ''Fully qualified instance name (resource_type.label).'',
          tf_Required = False, tf_Optional = False, tf_Computed = True,
          tf_Sensitive = False\<rparr>
         [UseStateForUnknown]]"

text \<open>
  The second loop: \<open>tfAttrs\<close> takes the top-level attributes, \<open>blocks\<close> the members of
  each block. \<open>blocks\<close> and each of its values are Go maps that the third loop ranges
  over, so they are association lists here, written with \<open>AList.update\<close>, which keeps
  the keys distinct.
\<close>

definition blockOf :: "(string \<times> (string \<times> tf_attribute) list) list \<Rightarrow> string \<Rightarrow>
    (string \<times> tf_attribute) list" where
  "blockOf blocks b = (case map_of blocks b of None \<Rightarrow> [] | Some m \<Rightarrow> m)"

fun groupAttrs :: "attrInfo list \<Rightarrow>
    (string \<rightharpoonup> tf_attribute) \<times> (string \<times> (string \<times> tf_attribute) list) list \<Rightarrow>
    (string \<rightharpoonup> tf_attribute) \<times> (string \<times> (string \<times> tf_attribute) list) list" where
  "groupAttrs [] st = st"
| "groupAttrs (info # infos) (tfAttrs, blocks) =
     (let tfAttr = kaiakAttrToTF (attr info) in
      if tfBlock info \<noteq> [] then
        groupAttrs infos (tfAttrs,
          AList.update (tfBlock info)
            (AList.update (tfField info) tfAttr (blockOf blocks (tfBlock info))) blocks)
      else groupAttrs infos (tfAttrs(tfField info \<mapsto> tfAttr), blocks))"

text \<open>The type switch of the third loop: the \<open>Required\<close> field of a leaf attribute.\<close>

fun leafRequired :: "tf_attribute \<Rightarrow> bool" where
  "leafRequired (StringAttribute f pm) = tf_Required f"
| "leafRequired (BoolAttribute f) = tf_Required f"
| "leafRequired (Int64Attribute f) = tf_Required f"
| "leafRequired (Float64Attribute f) = tf_Required f"
| "leafRequired (ListAttribute f e) = tf_Required f"
| "leafRequired (MapAttribute f e) = tf_Required f"
| "leafRequired (SingleNestedAttribute m f) = False"

definition blockRequired :: "(string \<times> tf_attribute) list \<Rightarrow> bool" where
  "blockRequired blockAttrs = list_ex (\<lambda>kv. leafRequired (snd kv)) blockAttrs"

definition nestedBlock :: "(string \<times> tf_attribute) list \<Rightarrow> tf_attribute" where
  "nestedBlock blockAttrs =
     (let required = blockRequired blockAttrs in
      SingleNestedAttribute blockAttrs
        \<lparr>tf_Description = [], tf_Required = required, tf_Optional = (\<not> required),
         tf_Computed = (\<not> required), tf_Sensitive = False\<rparr>)"

fun nestBlocks :: "(string \<times> (string \<times> tf_attribute) list) list \<Rightarrow>
    (string \<rightharpoonup> tf_attribute) \<Rightarrow> (string \<rightharpoonup> tf_attribute)" where
  "nestBlocks [] tfAttrs = tfAttrs"
| "nestBlocks ((blockName, blockAttrs) # bs) tfAttrs =
     nestBlocks bs (tfAttrs(blockName \<mapsto> nestedBlock blockAttrs))"

text \<open>A nil slice of \<open>attrInfo\<close> is the empty list: \<open>infos\<close> is nil until the first append.\<close>

definition buildResourceSchema :: "string \<Rightarrow> Attribute list \<Rightarrow>
    tf_schema \<times> attrInfo list \<times> diagnostic list" where
  "buildResourceSchema resourceName kaiakAttrs =
     (case collectInfos resourceName kaiakAttrs ([], Map.empty, []) of
        (infos, seen, diags) \<Rightarrow>
          if HasError diags then (empty_schema, [], diags)
          else
            (case groupAttrs infos (fixedAttrs, []) of
               (tfAttrs, blocks) \<Rightarrow>
                 (\<lparr>schema_Description =
                      ''Manages a '' @ resourceName @ '' resource instance on a running Kaiak server.'',
                   Attributes = nestBlocks blocks tfAttrs\<rparr>,
                  infos, diags)))"

section \<open>Instance controller (resource.go)\<close>

subsection \<open>The framework's plan and state, the server's client\<close>

text \<open>
  \<open>schema.State\<close> is a Go map from attribute name to dynamic value. A read of a missing
  key gives \<open>nil\<close>.
\<close>

type_synonym 'f State = "string \<rightharpoonup> 'f dyn"

definition lookupAny :: "'f State \<Rightarrow> string \<Rightarrow> 'f dyn" where
  "lookupAny m k = (case m k of None \<Rightarrow> DNil | Some v \<Rightarrow> v)"

text \<open>
  A plan, a config or a state of the framework (\<open>tfsdk.Plan\<close>, \<open>tfsdk.State\<close>) holds one
  value for each root attribute, and a state carries the schema of its resource. The
  source reads with \<open>GetAttribute\<close> into a target of a fixed Go type and writes with
  \<open>SetAttribute\<close>. Both are framework code. A read whose path is missing, or whose
  value is not of the target's type, reports an error and leaves the target at its zero
  value, which is null (\<open>None\<close> below). A write converts the value to the type that the
  schema has at the path: when the schema has no attribute there, or the value is of
  another type, it reports an error and stores nothing.
\<close>

type_synonym 'f tfdata = "string \<rightharpoonup> 'f attr_value"

record 'f tfstate =
  st_Schema :: tf_schema
  st_Raw :: "'f tfdata"

text \<open>
  The type of a schema attribute. The type of a nested attribute is the object of its
  members' types; two object types are the same when they give the same type to the
  same names, whatever the order.
\<close>

fun attrTypeOf :: "tf_attribute \<Rightarrow> attr_type" where
  "attrTypeOf (StringAttribute f pm) = StringType"
| "attrTypeOf (BoolAttribute f) = BoolType"
| "attrTypeOf (Int64Attribute f) = Int64Type"
| "attrTypeOf (Float64Attribute f) = Float64Type"
| "attrTypeOf (ListAttribute f e) = ListType e"
| "attrTypeOf (MapAttribute f e) = MapType e"
| "attrTypeOf (SingleNestedAttribute m f) =
     ObjectType (map (\<lambda>kv. (fst kv, attrTypeOf (snd kv))) m)"

definition sameType :: "attr_type \<Rightarrow> attr_type \<Rightarrow> bool" where
  "sameType a b =
     (case a of
        ObjectType xs \<Rightarrow>
          (case b of ObjectType ys \<Rightarrow> map_of xs = map_of ys | _ \<Rightarrow> False)
      | _ \<Rightarrow> a = b)"

datatype value_kind = KBool | KInt64 | KFloat64 | KString | KList | KMap | KObject

fun kindOf :: "'f attr_value \<Rightarrow> value_kind" where
  "kindOf BoolNull = KBool"
| "kindOf BoolUnknown = KBool"
| "kindOf (BoolValue b) = KBool"
| "kindOf Int64Null = KInt64"
| "kindOf Int64Unknown = KInt64"
| "kindOf (Int64Value n) = KInt64"
| "kindOf Float64Null = KFloat64"
| "kindOf Float64Unknown = KFloat64"
| "kindOf (Float64Value x) = KFloat64"
| "kindOf StringNull = KString"
| "kindOf StringUnknown = KString"
| "kindOf (StringValue s) = KString"
| "kindOf (ListNull e) = KList"
| "kindOf (ListUnknown e) = KList"
| "kindOf (ListValue e xs) = KList"
| "kindOf (MapNull e) = KMap"
| "kindOf (MapUnknown e) = KMap"
| "kindOf (MapValue e kvs) = KMap"
| "kindOf (ObjectNull ts) = KObject"
| "kindOf (ObjectUnknown ts) = KObject"
| "kindOf (ObjectValue ts kvs) = KObject"

definition GetAttribute :: "'f tfdata \<Rightarrow> string \<Rightarrow> value_kind \<Rightarrow>
    'f attr_value option \<times> diagnostic list" where
  "GetAttribute src p target =
     (case src p of
        None \<Rightarrow> (None, [ErrorDiag ''Attribute not found'' (Text p)])
      | Some v \<Rightarrow>
          if kindOf v = target then (Some v, [])
          else (None, [ErrorDiag ''Value Conversion Error'' (Text p)]))"

definition SetAttribute :: "'f tfstate \<Rightarrow> string \<Rightarrow> 'f attr_value \<Rightarrow>
    'f tfstate \<times> diagnostic list" where
  "SetAttribute st p v =
     (case Attributes (st_Schema st) p of
        None \<Rightarrow> (st, [ErrorDiag ''State Write Error'' (Text p)])
      | Some a \<Rightarrow>
          if sameType (attrTypeOf a) (TypeOf v)
          then (st\<lparr>st_Raw := (st_Raw st)(p \<mapsto> v)\<rparr>, [])
          else (st, [ErrorDiag ''Value Conversion Error'' (Text p)]))"

definition known :: "'f attr_value option \<Rightarrow> 'f attr_value option" where
  \<comment> \<open>the target's value where \<open>!v.IsNull() && !v.IsUnknown()\<close> holds\<close>
  "known v =
     (case v of
        None \<Rightarrow> None
      | Some x \<Rightarrow> if \<not> IsNull x \<and> \<not> IsUnknown x then Some x else None)"

text \<open>The accessors of the framework's values: a null or unknown value gives the zero value.\<close>

fun ValueBool :: "'f attr_value \<Rightarrow> bool" where
  "ValueBool (BoolValue b) = b"
| "ValueBool v = False"

fun ValueInt64 :: "'f attr_value \<Rightarrow> int64" where
  "ValueInt64 (Int64Value n) = n"
| "ValueInt64 v = 0"

definition ValueFloat64 :: "('f, 't) golib \<Rightarrow> 'f attr_value \<Rightarrow> 'f" where
  \<comment> \<open>the zero value is \<open>float64(0)\<close>\<close>
  "ValueFloat64 lib v = (case v of Float64Value x \<Rightarrow> x | _ \<Rightarrow> int_to_float lib 0)"

fun ValueString :: "'f attr_value \<Rightarrow> string" where
  "ValueString (StringValue s) = s"
| "ValueString v = []"

fun Elements :: "'f attr_value \<Rightarrow> 'f attr_value list" where
  "Elements (ListValue e xs) = xs"
| "Elements v = []"

fun MapElements :: "'f attr_value \<Rightarrow> (string \<times> 'f attr_value) list" where
  "MapElements (MapValue e kvs) = kvs"
| "MapElements v = []"

fun ObjectAttributes :: "'f attr_value \<Rightarrow> (string \<times> 'f attr_value) list" where
  "ObjectAttributes (ObjectValue ts kvs) = kvs"
| "ObjectAttributes v = []"

text \<open>
  \<open>types.ObjectValue\<close> of the framework: an error, and an unknown object, unless the
  values have the names and the types of \<open>attrTypes\<close>.
\<close>

definition ObjectValueMk :: "(string \<times> attr_type) list \<Rightarrow> (string \<times> 'f attr_value) list \<Rightarrow>
    'f attr_value \<times> diagnostic list" where
  "ObjectValueMk attrTypes attrValues =
     (if map_of attrTypes = map_option TypeOf \<circ> map_of attrValues
      then (ObjectValue attrTypes attrValues, [])
      else (ObjectUnknown attrTypes, [ErrorDiag ''Invalid Object Attribute Type'' (Text [])]))"

text \<open>
  The client of the server (\<open>httpclient.Client\<close>): each call is a transition of the
  server's state \<open>'s\<close> that returns an error (its message) or nothing, and for
  \<open>GetResourceInstance\<close> the instance's state.
\<close>

record ('s, 'f) Client =
  CreateResourceInstance :: "string \<Rightarrow> 's \<Rightarrow> string option \<times> 's"
  UpdateResourceInstance :: "string \<Rightarrow> 'f State \<Rightarrow> bool \<Rightarrow> 's \<Rightarrow> string option \<times> 's"
  DestroyResourceInstance :: "string \<Rightarrow> bool \<Rightarrow> 's \<Rightarrow> string option \<times> 's"
  GetResourceInstance :: "string \<Rightarrow> 's \<Rightarrow> (string + 'f State) \<times> 's"

record ResourceMeta =
  meta_Name :: string
  meta_Attributes :: "Attribute list"

record ('s, 'f) dynamicResource =
  r_client :: "('s, 'f) Client option"
  r_meta :: ResourceMeta
  r_infos :: "attrInfo list"

text \<open>
  \<open>getInfos\<close> also stores its result in \<open>r.infos\<close>. The store is left out of the
  operations below: \<open>getInfos_cached\<close> shows that it changes no later result.
\<close>

definition getInfos :: "('s, 'f) dynamicResource \<Rightarrow> attrInfo list" where
  "getInfos r =
     (if r_infos r = []
      then fst (snd (buildResourceSchema (meta_Name (r_meta r)) (meta_Attributes (r_meta r))))
      else r_infos r)"

definition fullName :: "('s, 'f) dynamicResource \<Rightarrow> string \<Rightarrow> string" where
  "fullName r label = meta_Name (r_meta r) @ ''.'' @ label"

definition hexDigit :: "nat \<Rightarrow> char" where
  "hexDigit n = ''0123456789abcdef'' ! (n mod 16)"

definition EncodeToString :: "8 word list \<Rightarrow> string" where
  \<comment> \<open>\<open>hex.EncodeToString\<close>\<close>
  "EncodeToString bs = concat (map (\<lambda>b. [hexDigit (unat b div 16), hexDigit (unat b)]) bs)"

definition generateLabel :: "8 word list \<Rightarrow> string" where
  \<comment> \<open>the argument is the four bytes that \<open>rand.Read\<close> delivers\<close>
  "generateLabel b = ''tf_'' @ EncodeToString b"

subsection \<open>Extraction: plan to server state\<close>

definition tfElemToGo :: "('f, 't) golib \<Rightarrow> 'f attr_value \<Rightarrow> string \<Rightarrow> 'f dyn" where
  "tfElemToGo lib v t =
     (if t = ''bool'' \<and> kindOf v = KBool then DBool (ValueBool v)
      else if (t = ''int'' \<or> t = ''uint'') \<and> kindOf v = KInt64 then DInt64 (ValueInt64 v)
      else if t = ''float'' \<and> kindOf v = KFloat64 then DFloat64 (ValueFloat64 lib v)
      else if kindOf v = KString then DString (ValueString v)
      else DString (sprint_value lib v))"

definition tfListToKaiak :: "('f, 't) golib \<Rightarrow> 'f attr_value \<Rightarrow> string \<Rightarrow> 'f dyn" where
  "tfListToKaiak lib list elemType =
     DSlice (map (\<lambda>e. tfElemToGo lib e elemType) (Elements list))"

definition tfMapToKaiak :: "('f, 't) golib \<Rightarrow> 'f attr_value \<Rightarrow> string \<Rightarrow> 'f dyn" where
  "tfMapToKaiak lib m valType =
     DMap (map (\<lambda>kv. (fst kv, tfElemToGo lib (snd kv) valType)) (MapElements m))"

definition extractSingleAttr :: "('f, 't) golib \<Rightarrow> 'f tfdata \<Rightarrow> string \<Rightarrow> attrInfo \<Rightarrow>
    'f State \<times> diagnostic list \<Rightarrow> 'f State \<times> diagnostic list" where
  "extractSingleAttr lib src p info sd =
     (case sd of (state, diags) \<Rightarrow>
        (let t = Type (attr info) in
         if t = ''bool'' then
           (case GetAttribute src p KBool of (v, d) \<Rightarrow>
              (case known v of
                 Some x \<Rightarrow> state(kaiakName info \<mapsto> DBool (ValueBool x))
               | None \<Rightarrow> state,
               Append diags d))
         else if t = ''int'' \<or> t = ''uint'' then
           (case GetAttribute src p KInt64 of (v, d) \<Rightarrow>
              (case known v of
                 Some x \<Rightarrow> state(kaiakName info \<mapsto> DInt64 (ValueInt64 x))
               | None \<Rightarrow> state,
               Append diags d))
         else if t = ''float'' then
           (case GetAttribute src p KFloat64 of (v, d) \<Rightarrow>
              (case known v of
                 Some x \<Rightarrow> state(kaiakName info \<mapsto> DFloat64 (ValueFloat64 lib x))
               | None \<Rightarrow> state,
               Append diags d))
         else if HasPrefix t ''[]'' then
           (case GetAttribute src p KList of (v, d) \<Rightarrow>
              (case known v of
                 Some x \<Rightarrow> state(kaiakName info \<mapsto> tfListToKaiak lib x (drop 2 t))
               | None \<Rightarrow> state,
               Append diags d))
         else if HasPrefix t ''map['' then
           (case GetAttribute src p KMap of (v, d) \<Rightarrow>
              (case known v of
                 Some x \<Rightarrow>
                   (let idx = Index t CHR '']'' in
                    if idx \<ge> 0 \<and> idx + 1 < int (length t)
                    then state(kaiakName info \<mapsto> tfMapToKaiak lib x (drop (nat (idx + 1)) t))
                    else state)
               | None \<Rightarrow> state,
               Append diags d))
         else
           (case GetAttribute src p KString of (v, d) \<Rightarrow>
              (case known v of
                 Some x \<Rightarrow> state(kaiakName info \<mapsto> DString (ValueString x))
               | None \<Rightarrow> state,
               Append diags d))))"

definition extractBlockAttr :: "('f, 't) golib \<Rightarrow> attrInfo \<Rightarrow> 'f attr_value \<Rightarrow>
    'f State \<Rightarrow> 'f State" where
  "extractBlockAttr lib info v state =
     (let t = Type (attr info) in
      if t = ''bool'' then
        (if kindOf v = KBool \<and> \<not> IsNull v \<and> \<not> IsUnknown v
         then state(kaiakName info \<mapsto> DBool (ValueBool v)) else state)
      else if t = ''int'' \<or> t = ''uint'' then
        (if kindOf v = KInt64 \<and> \<not> IsNull v \<and> \<not> IsUnknown v
         then state(kaiakName info \<mapsto> DInt64 (ValueInt64 v)) else state)
      else if t = ''float'' then
        (if kindOf v = KFloat64 \<and> \<not> IsNull v \<and> \<not> IsUnknown v
         then state(kaiakName info \<mapsto> DFloat64 (ValueFloat64 lib v)) else state)
      else if HasPrefix t ''[]'' then
        (if kindOf v = KList \<and> \<not> IsNull v \<and> \<not> IsUnknown v
         then state(kaiakName info \<mapsto> tfListToKaiak lib v (drop 2 t)) else state)
      else if HasPrefix t ''map['' then
        (if kindOf v = KMap \<and> \<not> IsNull v \<and> \<not> IsUnknown v
         then (let idx = Index t CHR '']'' in
               if idx \<ge> 0 \<and> idx + 1 < int (length t)
               then state(kaiakName info \<mapsto> tfMapToKaiak lib v (drop (nat (idx + 1)) t))
               else state)
         else state)
      else
        (if kindOf v = KString \<and> \<not> IsNull v \<and> \<not> IsUnknown v
         then state(kaiakName info \<mapsto> DString (ValueString v)) else state))"

text \<open>
  \<open>extractAttrs\<close>: the top-level attributes first, then the members of each block, read
  from the block's object. \<open>blockGroups\<close> is a Go map that the last loop ranges over; it
  is an association list in the order of first insertion. Go's order is unspecified; the
  order decides nothing but the order of the diagnostics, since the blocks write
  different keys.
\<close>

fun extractTopLevel :: "('f, 't) golib \<Rightarrow> 'f tfdata \<Rightarrow> attrInfo list \<Rightarrow>
    'f State \<times> diagnostic list \<Rightarrow> 'f State \<times> diagnostic list" where
  "extractTopLevel lib src [] sd = sd"
| "extractTopLevel lib src (info # infos) sd =
     (if ReadOnly (attr info) \<or> tfBlock info \<noteq> [] then extractTopLevel lib src infos sd
      else extractTopLevel lib src infos (extractSingleAttr lib src (tfField info) info sd))"

definition groupOf :: "(string \<times> attrInfo list) list \<Rightarrow> string \<Rightarrow> attrInfo list" where
  "groupOf blockGroups b = (case map_of blockGroups b of None \<Rightarrow> [] | Some g \<Rightarrow> g)"

fun writableBlockGroups :: "attrInfo list \<Rightarrow> (string \<times> attrInfo list) list \<Rightarrow>
    (string \<times> attrInfo list) list" where
  "writableBlockGroups [] blockGroups = blockGroups"
| "writableBlockGroups (info # infos) blockGroups =
     (if ReadOnly (attr info) \<or> tfBlock info = [] then writableBlockGroups infos blockGroups
      else writableBlockGroups infos
             (AList.update (tfBlock info) (groupOf blockGroups (tfBlock info) @ [info])
                blockGroups))"

fun extractMembers :: "('f, 't) golib \<Rightarrow> (string \<rightharpoonup> 'f attr_value) \<Rightarrow> attrInfo list \<Rightarrow>
    'f State \<Rightarrow> 'f State" where
  "extractMembers lib attrs [] state = state"
| "extractMembers lib attrs (info # infos) state =
     (case attrs (tfField info) of
        None \<Rightarrow> extractMembers lib attrs infos state
      | Some v \<Rightarrow> extractMembers lib attrs infos (extractBlockAttr lib info v state))"

fun extractBlocks :: "('f, 't) golib \<Rightarrow> 'f tfdata \<Rightarrow> (string \<times> attrInfo list) list \<Rightarrow>
    'f State \<times> diagnostic list \<Rightarrow> 'f State \<times> diagnostic list" where
  "extractBlocks lib src [] sd = sd"
| "extractBlocks lib src ((blockName, infos) # groups) (state, diags) =
     (case GetAttribute src blockName KObject of
        (block, d) \<Rightarrow>
          (case known block of
             None \<Rightarrow> extractBlocks lib src groups (state, Append diags d)
           | Some obj \<Rightarrow>
               extractBlocks lib src groups
                 (extractMembers lib (map_of (ObjectAttributes obj)) infos state, Append diags d)))"

definition extractAttrs :: "('s, 'f) dynamicResource \<Rightarrow> ('f, 't) golib \<Rightarrow> 'f tfdata \<Rightarrow>
    diagnostic list \<Rightarrow> 'f State \<times> diagnostic list" where
  "extractAttrs r lib src diags =
     extractBlocks lib src (writableBlockGroups (getInfos r) [])
       (extractTopLevel lib src (getInfos r) (Map.empty, diags))"

subsection \<open>Reconciliation: server state to framework state\<close>

definition setAttr :: "'f tfstate \<times> diagnostic list \<Rightarrow> string \<Rightarrow> 'f attr_value \<Rightarrow>
    'f tfstate \<times> diagnostic list" where
  \<comment> \<open>\<open>diags.Append(tfState.SetAttribute(ctx, path.Root(p), v)...)\<close>\<close>
  "setAttr td p v =
     (case td of (tfState, diags) \<Rightarrow>
        (case SetAttribute tfState p v of (tfState', d) \<Rightarrow> (tfState', Append diags d)))"

text \<open>
  The merge of \<open>writeState\<close>: \<open>merged\<close> starts as a copy of the server's state; when
  planned attributes are given (not nil), each attribute that is not read-only and has no
  key in \<open>merged\<close> takes its planned value, if there is one.
\<close>

fun backfill :: "attrInfo list \<Rightarrow> 'f State \<Rightarrow> 'f State \<Rightarrow> 'f State" where
  "backfill [] plannedAttrs merged = merged"
| "backfill (info # infos) plannedAttrs merged =
     (if ReadOnly (attr info) then backfill infos plannedAttrs merged
      else
        (case merged (kaiakName info) of
           Some v \<Rightarrow> backfill infos plannedAttrs merged
         | None \<Rightarrow>
             (case plannedAttrs (kaiakName info) of
                Some pv \<Rightarrow> backfill infos plannedAttrs (merged(kaiakName info \<mapsto> pv))
              | None \<Rightarrow> backfill infos plannedAttrs merged)))"

definition mergeState :: "attrInfo list \<Rightarrow> 'f State \<Rightarrow> 'f State option \<Rightarrow> 'f State" where
  "mergeState infos kaiakState plannedAttrs =
     (case plannedAttrs of
        None \<Rightarrow> kaiakState
      | Some planned \<Rightarrow> backfill infos planned kaiakState)"

fun writeTopLevel :: "('f, 't) golib \<Rightarrow> 'f State \<Rightarrow> attrInfo list \<Rightarrow>
    'f tfstate \<times> diagnostic list \<Rightarrow> 'f tfstate \<times> diagnostic list" where
  "writeTopLevel lib merged [] td = td"
| "writeTopLevel lib merged (info # infos) td =
     (if tfBlock info \<noteq> [] then writeTopLevel lib merged infos td
      else
        (let v = lookupAny merged (kaiakName info) in
         writeTopLevel lib merged infos
           (setAttr td (tfField info) (kaiakValueToTF lib v (Type (attr info))))))"

fun allBlockGroups :: "attrInfo list \<Rightarrow> (string \<times> attrInfo list) list \<Rightarrow>
    (string \<times> attrInfo list) list" where
  "allBlockGroups [] blockGroups = blockGroups"
| "allBlockGroups (info # infos) blockGroups =
     (if tfBlock info = [] then allBlockGroups infos blockGroups
      else allBlockGroups infos
             (AList.update (tfBlock info) (groupOf blockGroups (tfBlock info) @ [info])
                blockGroups))"

fun blockValues :: "('f, 't) golib \<Rightarrow> 'f State \<Rightarrow> attrInfo list \<Rightarrow>
    (string \<times> attr_type) list \<times> (string \<times> 'f attr_value) list \<times> bool \<Rightarrow>
    (string \<times> attr_type) list \<times> (string \<times> 'f attr_value) list \<times> bool" where
  "blockValues lib merged [] acc = acc"
| "blockValues lib merged (info # infos) (attrTypes, attrValues, hasValue) =
     (let attrTypes' =
            AList.update (tfField info) (kaiakTypeToAttrType (Type (attr info))) attrTypes
      in case merged (kaiakName info) of
           Some v \<Rightarrow>
             if v \<noteq> DNil then
               blockValues lib merged infos
                 (attrTypes',
                  AList.update (tfField info) (kaiakValueToTF lib v (Type (attr info)))
                    attrValues,
                  True)
             else
               blockValues lib merged infos
                 (attrTypes',
                  AList.update (tfField info) (kaiakNullValue (Type (attr info))) attrValues,
                  hasValue)
         | None \<Rightarrow>
             blockValues lib merged infos
               (attrTypes',
                AList.update (tfField info) (kaiakNullValue (Type (attr info))) attrValues,
                hasValue))"

fun writeBlocks :: "('f, 't) golib \<Rightarrow> 'f State \<Rightarrow> (string \<times> attrInfo list) list \<Rightarrow>
    'f tfstate \<times> diagnostic list \<Rightarrow> 'f tfstate \<times> diagnostic list" where
  "writeBlocks lib merged [] td = td"
| "writeBlocks lib merged ((blockName, infos) # groups) (tfState, diags) =
     (case blockValues lib merged infos ([], [], False) of
        (attrTypes, attrValues, hasValue) \<Rightarrow>
          if hasValue then
            (case ObjectValueMk attrTypes attrValues of
               (obj, d) \<Rightarrow>
                 writeBlocks lib merged groups (setAttr (tfState, Append diags d) blockName obj))
          else
            writeBlocks lib merged groups
              (setAttr (tfState, diags) blockName (ObjectNull attrTypes)))"

text \<open>
  \<open>writeState\<close>, with the client \<open>c\<close> that its callers have found configured. \<open>None\<close>
  for \<open>plannedAttrs\<close> is Go's nil map.
\<close>

definition writeState :: "('s, 'f) dynamicResource \<Rightarrow> ('s, 'f) Client \<Rightarrow> ('f, 't) golib \<Rightarrow>
    string \<Rightarrow> 'f tfstate \<times> diagnostic list \<Rightarrow> 'f State option \<Rightarrow> 's \<Rightarrow>
    ('f tfstate \<times> diagnostic list) \<times> 's" where
  "writeState r c lib name td plannedAttrs srv =
     (case td of (tfState, diags) \<Rightarrow>
        (case GetResourceInstance c name srv of
           (Inl err, srv') \<Rightarrow>
             ((tfState, Append diags [ErrorDiag ''Failed to read resource instance'' (Text err)]),
              srv')
         | (Inr kaiakState, srv') \<Rightarrow>
             (let td1 = setAttr (tfState, diags) ''id'' (StringValue name);
                  merged = mergeState (getInfos r) kaiakState plannedAttrs;
                  td2 = writeTopLevel lib merged (getInfos r) td1
              in (writeBlocks lib merged (allBlockGroups (getInfos r) []) td2, srv'))))"

subsection \<open>Create and ImportState\<close>

definition cleanupWarning :: "string \<Rightarrow> string \<Rightarrow> string \<Rightarrow> diagnostic" where
  \<comment> \<open>the warning of both cleanup paths; \<open>what\<close> is the step that failed\<close>
  "cleanupWarning what name err =
     WarningDiag ''Cleanup failed''
       (Sprintf (''Instance %s was created but '' @ what @ '' failed. '' @
                 ''Attempted to destroy the instance but cleanup also failed: %s. '' @
                 ''The instance may need manual removal.'')
          [name, err])"

text \<open>
  \<open>Create\<close>: \<open>rnd\<close> is the random bytes of the label, \<open>plan\<close> the request's plan,
  \<open>td\<close> the response's state and diagnostics, \<open>srv\<close> the server. The first case is
  \<open>requireClient\<close>.
\<close>

definition Create :: "('s, 'f) dynamicResource \<Rightarrow> ('f, 't) golib \<Rightarrow> 8 word list \<Rightarrow>
    'f tfdata \<Rightarrow> 'f tfstate \<times> diagnostic list \<Rightarrow> 's \<Rightarrow>
    ('f tfstate \<times> diagnostic list) \<times> 's" where
  "Create r lib rnd plan td srv =
     (case td of (tfState, diags) \<Rightarrow>
        (case r_client r of
           None \<Rightarrow>
             ((tfState, Append diags
                 [ErrorDiag ''Resource not configured''
                    (Text ''The provider has not been configured. Ensure the provider block is present and valid.'')]),
              srv)
         | Some c \<Rightarrow>
             (let name = fullName r (generateLabel rnd) in
              case CreateResourceInstance c name srv of
                (Some err, srv1) \<Rightarrow>
                  ((tfState, Append diags
                      [ErrorDiag ''Failed to create resource instance'' (Text err)]),
                   srv1)
              | (None, srv1) \<Rightarrow>
                  (case extractAttrs r lib plan diags of
                     (attrs, diags1) \<Rightarrow>
                       if HasError diags1 then
                         (case DestroyResourceInstance c name False srv1 of
                            (Some err, srv2) \<Rightarrow>
                              ((tfState, Append diags1
                                  [cleanupWarning ''attribute extraction'' name err]),
                               srv2)
                          | (None, srv2) \<Rightarrow> ((tfState, diags1), srv2))
                       else if attrs \<noteq> Map.empty then
                         (case UpdateResourceInstance c name attrs True srv1 of
                            (Some err, srv2) \<Rightarrow>
                              (case DestroyResourceInstance c name False srv2 of
                                 (Some cleanupErr, srv3) \<Rightarrow>
                                   ((tfState, Append diags1
                                       [cleanupWarning ''applying attributes'' name cleanupErr,
                                        ErrorDiag ''Failed to apply attributes'' (Text err)]),
                                    srv3)
                               | (None, srv3) \<Rightarrow>
                                   ((tfState, Append diags1
                                       [ErrorDiag ''Failed to apply attributes'' (Text err)]),
                                    srv3))
                          | (None, srv2) \<Rightarrow>
                              writeState r c lib name (tfState, diags1) (Some attrs) srv2)
                       else writeState r c lib name (tfState, diags1) (Some attrs) srv1))))"

text \<open>
  \<open>ImportState\<close> hands Go strings to \<open>SetAttribute\<close>, which stores a string as a
  string value.
\<close>

definition importFormatError :: "string \<Rightarrow> diagnostic" where
  "importFormatError reqID =
     ErrorDiag ''Invalid import ID''
       (Sprintf ''Expected format \"resource_type.label\" (e.g. \"httpstatic.docs\"), got %q''
          [reqID])"

definition importTypeMismatch :: "string \<Rightarrow> string \<Rightarrow> string \<Rightarrow> diagnostic" where
  "importTypeMismatch reqID ty bound =
     ErrorDiag ''Resource type mismatch''
       (Sprintf (''Import ID %q has resource type %q, but this resource block is kaiak_%s. '' @
                 ''Use the matching resource type or correct the import ID.'')
          [reqID, ty, bound])"

definition ImportState :: "('s, 'f) dynamicResource \<Rightarrow> string \<Rightarrow>
    'f tfstate \<times> diagnostic list \<Rightarrow> 'f tfstate \<times> diagnostic list" where
  "ImportState r reqID td =
     (case td of (tfState, diags) \<Rightarrow>
        (let parts = SplitN2 reqID CHR ''.'' in
         if length parts \<noteq> 2 \<or> parts ! 0 = [] \<or> parts ! 1 = [] then
           (tfState, Append diags [importFormatError reqID])
         else if parts ! 0 \<noteq> meta_Name (r_meta r) then
           (tfState, Append diags [importTypeMismatch reqID (parts ! 0) (meta_Name (r_meta r))])
         else
           setAttr (setAttr (tfState, diags) ''id'' (StringValue reqID))
             ''name'' (StringValue (parts ! 1))))"

text \<open>
  The state that the framework hands to the first operation on an instance: the schema
  that \<open>Schema\<close> reported for the resource type, and no value yet.
\<close>

definition emptyState :: "('s, 'f) dynamicResource \<Rightarrow> 'f tfstate" where
  "emptyState r =
     \<lparr>st_Schema =
        fst (buildResourceSchema (meta_Name (r_meta r)) (meta_Attributes (r_meta r))),
      st_Raw = Map.empty\<rparr>"

section \<open>Shapes and example inputs\<close>

text \<open>
  The runtime shape that each case of \<open>kaiakValueToTF\<close> asserts of a non-nil value: a
  \<open>bool\<close> for \<open>bool\<close>, a \<open>float64\<close> or an \<open>int\<close> for the numeric tags, a slice for a
  list tag, a map for a map tag, and a string for \<open>time\<close> and every other tag.
\<close>

definition shapeMatches :: "string \<Rightarrow> 'f dyn \<Rightarrow> bool" where
  "shapeMatches t v =
     (if t = ''bool'' then (case v of DBool b \<Rightarrow> True | _ \<Rightarrow> False)
      else if t = ''int'' \<or> t = ''uint'' \<or> t = ''float'' then
        (case v of DFloat64 n \<Rightarrow> True | DInt n \<Rightarrow> True | _ \<Rightarrow> False)
      else if HasPrefix t ''[]'' then (case v of DSlice xs \<Rightarrow> True | _ \<Rightarrow> False)
      else if HasPrefix t ''map['' then (case v of DMap kvs \<Rightarrow> True | _ \<Rightarrow> False)
      else (case v of DString s \<Rightarrow> True | _ \<Rightarrow> False))"

text \<open>
  A stand-in for Go's library in the examples: floats are reals, a time is its Unix
  seconds, and one timestamp parses.
\<close>

definition stubLib :: "(real, nat) golib" where
  "stubLib =
     \<lparr>float_to_int64 = (\<lambda>x. 0), int_to_float = (\<lambda>n. 0),
      sprint = (\<lambda>v. case v of
                  DString s \<Rightarrow> s
                | DBool b \<Rightarrow> (if b then ''true'' else ''false'')
                | _ \<Rightarrow> ''?''),
      sprint_value = (\<lambda>v. ''?''),
      parse_rfc3339 =
        (\<lambda>s. if s = ''2024-01-02T03:04:05+00:00'' then Some 1704164645 else None),
      format_rfc3339 = (\<lambda>t. ''2024-01-02T03:04:05Z'')\<rparr>"

definition descr :: "string \<Rightarrow> string \<Rightarrow> bool \<Rightarrow> bool \<Rightarrow> Attribute" where
  \<comment> \<open>a descriptor with the given name, type, required and read-only flags\<close>
  "descr n t req ro =
     \<lparr>Name = n, Type = t, Description = [], Required = req, ReadOnly = ro,
      Sensitive = False, Reference = False\<rparr>"

text \<open>
  A resource type \<open>httpserver\<close> with one string attribute, a plan that sets it, and a
  server that keeps the names of its instances and rejects every update; its destroy
  fails or succeeds as asked.
\<close>

definition demoClient :: "bool \<Rightarrow> (string list, real) Client" where
  "demoClient destroyFails =
     \<lparr>CreateResourceInstance = (\<lambda>name srv. (None, name # srv)),
      UpdateResourceInstance = (\<lambda>name attrs apply srv. (Some ''update rejected'', srv)),
      DestroyResourceInstance =
        (\<lambda>name force srv.
           if destroyFails then (Some ''destroy rejected'', srv)
           else (None, removeAll name srv)),
      GetResourceInstance = (\<lambda>name srv. (Inr Map.empty, srv))\<rparr>"

definition demoResource :: "(string list, real) Client option \<Rightarrow>
    (string list, real) dynamicResource" where
  "demoResource c =
     \<lparr>r_client = c,
      r_meta = \<lparr>meta_Name = ''httpserver'',
                meta_Attributes = [descr ''listen'' ''string'' False False]\<rparr>,
      r_infos = []\<rparr>"

definition demoPlan :: "real tfdata" where
  "demoPlan = [''listen'' \<mapsto> StringValue '':9090'']"

text \<open>
  Descriptors with a top-level attribute, a block \<open>tls\<close> with a required member and a
  block \<open>log\<close> without one.
\<close>

definition tlsAttrs :: "Attribute list" where
  "tlsAttrs =
     [descr ''listen'' ''string'' True False,
      descr ''tls.cert'' ''string'' True False,
      descr ''tls.key'' ''string'' False False,
      descr ''log.level'' ''string'' False False]"

text \<open>
  The planned value of a descriptor in a plan: the root attribute of its field for a
  top-level descriptor; for a member of a block, the attribute of its field in the
  block's object, when that object is neither null nor unknown. It is known when it is
  there and neither null nor unknown.
\<close>

definition plannedValue :: "'f tfdata \<Rightarrow> attrInfo \<Rightarrow> 'f attr_value option" where
  "plannedValue src info =
     (if tfBlock info = [] then src (tfField info)
      else
        (case src (tfBlock info) of
           None \<Rightarrow> None
         | Some obj \<Rightarrow>
             if kindOf obj = KObject \<and> \<not> IsNull obj \<and> \<not> IsUnknown obj
             then map_of (ObjectAttributes obj) (tfField info)
             else None))"

definition plannedKnown :: "'f tfdata \<Rightarrow> attrInfo \<Rightarrow> bool" where
  "plannedKnown src info =
     (case plannedValue src info of
        None \<Rightarrow> False
      | Some v \<Rightarrow> \<not> IsNull v \<and> \<not> IsUnknown v)"

text \<open>
  A controller for the descriptors above and a read-only \<open>version\<close>, and a plan that
  sets \<open>listen\<close> and \<open>tls.cert\<close>, gives a value to \<open>version\<close>, leaves \<open>tls.key\<close> null
  and the block \<open>log\<close> unknown.
\<close>

definition tlsResource :: "(string list, real) dynamicResource" where
  "tlsResource =
     \<lparr>r_client = None,
      r_meta = \<lparr>meta_Name = ''httpserver'',
                meta_Attributes = tlsAttrs @ [descr ''version'' ''string'' False True]\<rparr>,
      r_infos = []\<rparr>"

definition tlsPlan :: "real tfdata" where
  "tlsPlan =
     [''listen'' \<mapsto> StringValue '':9090'',
      ''version'' \<mapsto> StringValue ''1.0'',
      ''tls'' \<mapsto> ObjectValue [(''cert'', StringType), (''key'', StringType)]
                  [(''cert'', StringValue ''c''), (''key'', StringNull)],
      ''log'' \<mapsto> ObjectUnknown [(''level'', StringType)]]"

text \<open>
  A resource type whose only descriptor has the block name \<open>name\<close>; a resource type
  with a float and an integer attribute, a plan that sets both, and a server that accepts
  every call and always reports the given state.
\<close>

definition nameBlockResource :: "('s, 'f) dynamicResource" where
  "nameBlockResource =
     \<lparr>r_client = None,
      r_meta = \<lparr>meta_Name = ''httpserver'',
                meta_Attributes = [descr ''name.x'' ''string'' False False]\<rparr>,
      r_infos = []\<rparr>"

definition intResource :: "('s, 'f) Client option \<Rightarrow> ('s, 'f) dynamicResource" where
  "intResource c =
     \<lparr>r_client = c,
      r_meta = \<lparr>meta_Name = ''httpserver'',
                meta_Attributes =
                  [descr ''a'' ''float'' False False, descr ''b'' ''int'' False False]\<rparr>,
      r_infos = []\<rparr>"

definition echoClient :: "real State \<Rightarrow> (string list, real) Client" where
  "echoClient S =
     \<lparr>CreateResourceInstance = (\<lambda>name srv. (None, name # srv)),
      UpdateResourceInstance = (\<lambda>name attrs apply srv. (None, srv)),
      DestroyResourceInstance = (\<lambda>name force srv. (None, removeAll name srv)),
      GetResourceInstance = (\<lambda>name srv. (Inr S, srv))\<rparr>"

definition intPlan :: "real tfdata" where
  "intPlan = [''a'' \<mapsto> Float64Value 9, ''b'' \<mapsto> Int64Value 2]"

section \<open>Type coercer: properties\<close>

lemma kaiakSliceToTF_not_slice:
  "\<forall>xs. v \<noteq> DSlice xs \<Longrightarrow>
   kaiakSliceToTF lib v t = ListNull (kaiakTypeToAttrType (drop 2 t))"
  by (cases v) (simp_all add: kaiakSliceToTF.simps)

lemma kaiakMapToTF_not_map:
  "\<forall>kvs. v \<noteq> DMap kvs \<Longrightarrow> kaiakMapToTF lib v t = MapNull (kaiakMapElemType t)"
  by (cases v) (simp_all add: kaiakMapToTF.simps)

text \<open>
  Claim C4, as amended. A non-nil value whose shape does not match its tag is never an
  error: for a list tag the result is the null list of the element type, for a map tag the
  null map of the value type, and for every other tag the string rendering of the value.
\<close>

theorem mismatch_decodes_to_string_or_null:
  assumes nn: "v \<noteq> DNil" and nm: "\<not> shapeMatches t v"
  shows "kaiakValueToTF lib v t =
    (if HasPrefix t ''[]'' then ListNull (kaiakTypeToAttrType (drop 2 t))
     else if HasPrefix t ''map['' then MapNull (kaiakMapElemType t)
     else StringValue (sprint lib v))"
proof -
  consider (bool) "t = ''bool''" | (int) "t = ''int'' \<or> t = ''uint''" | (float) "t = ''float''"
    | (slice) "t \<noteq> ''bool''" "t \<noteq> ''int''" "t \<noteq> ''uint''" "t \<noteq> ''float''"
        "HasPrefix t ''[]''"
    | (map) "t \<noteq> ''bool''" "t \<noteq> ''int''" "t \<noteq> ''uint''" "t \<noteq> ''float''"
        "\<not> HasPrefix t ''[]''" "HasPrefix t ''map[''"
    | (time) "t = ''time''"
    | (other) "t \<noteq> ''bool''" "t \<noteq> ''int''" "t \<noteq> ''uint''" "t \<noteq> ''float''"
        "\<not> HasPrefix t ''[]''" "\<not> HasPrefix t ''map[''" "t \<noteq> ''time''"
    by blast
  then show ?thesis
  proof cases
    case bool
    with nn nm show ?thesis
      by (subst kaiakValueToTF.simps, cases v)
         (simp_all add: shapeMatches_def coerceToString_def HasPrefix_def)
  next
    case int
    then have "\<not> HasPrefix t ''[]''" "\<not> HasPrefix t ''map[''" "t \<noteq> ''bool''"
      by (auto simp: HasPrefix_def)
    with int nn nm show ?thesis
      by (subst kaiakValueToTF.simps, cases v)
         (auto simp: shapeMatches_def coerceToString_def)
  next
    case float
    with nn nm show ?thesis
      by (subst kaiakValueToTF.simps, cases v)
         (simp_all add: shapeMatches_def coerceToString_def HasPrefix_def)
  next
    case slice
    with nm have "\<forall>xs. v \<noteq> DSlice xs"
      by (auto simp: shapeMatches_def)
    with slice nn show ?thesis
      by (subst kaiakValueToTF.simps) (simp add: kaiakSliceToTF_not_slice)
  next
    case map
    with nm have "\<forall>kvs. v \<noteq> DMap kvs"
      by (auto simp: shapeMatches_def)
    with map nn show ?thesis
      by (subst kaiakValueToTF.simps) (simp add: kaiakMapToTF_not_map)
  next
    case time
    with nn nm show ?thesis
      by (subst kaiakValueToTF.simps, cases v)
         (simp_all add: shapeMatches_def coerceToString_def HasPrefix_def)
  next
    case other
    with nn show ?thesis
      by (subst kaiakValueToTF.simps) (simp add: coerceToString_def)
  qed
qed

theorem mismatch_decodes_witness:
  "kaiakValueToTF stubLib (DBool True) ''int'' = StringValue ''true'' \<and>
   kaiakValueToTF stubLib (DString ''x'') ''[]int'' = ListNull Int64Type"
  using mismatch_decodes_to_string_or_null [of "DBool True" "''int''" stubLib]
    mismatch_decodes_to_string_or_null [of "DString ''x''" "''[]int''" stubLib]
  by (simp add: shapeMatches_def HasPrefix_def stubLib_def kaiakTypeToAttrType.simps)

text \<open>
  Claim C4 as stated fails: the string \<open>x\<close> does not match the tag \<open>[]int\<close>, and its
  decoding is not its string rendering.
\<close>

theorem mismatch_list_tag_counterexample:
  "DString ''x'' \<noteq> (DNil :: real dyn) \<and>
   \<not> shapeMatches ''[]int'' (DString ''x'' :: real dyn) \<and>
   kaiakValueToTF stubLib (DString ''x'') ''[]int'' \<noteq>
     StringValue (sprint stubLib (DString ''x''))"
  by (simp add: shapeMatches_def kaiakValueToTF.simps kaiakSliceToTF.simps HasPrefix_def)

text \<open>
  An \<open>int64\<close>, which is what extraction stores for an integer attribute, is none of the
  types that the case of \<open>int\<close> asserts, and is rendered as a string.
\<close>

lemma int64_decodes_as_string:
  "kaiakValueToTF lib (DInt64 n) ''int'' = StringValue (sprint lib (DInt64 n))"
  by (simp add: kaiakValueToTF.simps coerceToString_def)

text \<open>
  Claim C5. Decoding nil gives, for every tag, the null of the tag's own type: the boolean
  null for \<open>bool\<close>, the integer null for \<open>int\<close> and \<open>uint\<close>, the float null for \<open>float\<close>,
  the null list or map of the element type for a compound tag, and the string null
  otherwise. The result is null and its type is the type of the tag.
\<close>

theorem nil_decodes_to_typed_null:
  "kaiakValueToTF lib DNil t =
     (if t = ''bool'' then BoolNull
      else if t = ''int'' \<or> t = ''uint'' then Int64Null
      else if t = ''float'' then Float64Null
      else if HasPrefix t ''[]'' then ListNull (kaiakTypeToAttrType (drop 2 t))
      else if HasPrefix t ''map['' then MapNull (kaiakMapElemType t)
      else StringNull) \<and>
   IsNull (kaiakValueToTF lib DNil t) \<and>
   TypeOf (kaiakValueToTF lib DNil t) = kaiakTypeToAttrType t"
  by (simp add: kaiakValueToTF.simps kaiakNullValue_def kaiakTypeToAttrType.simps [of t])

theorem nil_decodes_witness:
  "kaiakValueToTF stubLib DNil ''[]map[string]int'' = ListNull (MapType Int64Type) \<and>
   kaiakValueToTF stubLib DNil ''uint'' = Int64Null \<and>
   kaiakValueToTF stubLib DNil ''duration'' = StringNull"
  using nil_decodes_to_typed_null [of stubLib "''[]map[string]int''"]
    nil_decodes_to_typed_null [of stubLib "''uint''"]
    nil_decodes_to_typed_null [of stubLib "''duration''"]
  by (simp add: HasPrefix_def kaiakTypeToAttrType.simps kaiakMapElemType.simps)

text \<open>
  Claim C6. For the tag \<open>time\<close>, a string that parses as an RFC 3339 timestamp decodes to
  the timestamp formatted again in RFC 3339, and a string that does not parse decodes to
  itself.
\<close>

theorem time_tag_decoding:
  "(parse_rfc3339 lib s = Some ts \<longrightarrow>
      kaiakValueToTF lib (DString s) ''time'' = StringValue (format_rfc3339 lib ts)) \<and>
   (parse_rfc3339 lib s = None \<longrightarrow>
      kaiakValueToTF lib (DString s) ''time'' = StringValue s)"
  by (simp add: kaiakValueToTF.simps HasPrefix_def)

theorem time_tag_decoding_witness:
  "kaiakValueToTF stubLib (DString ''2024-01-02T03:04:05+00:00'') ''time'' =
     StringValue ''2024-01-02T03:04:05Z'' \<and>
   kaiakValueToTF stubLib (DString ''tomorrow'') ''time'' = StringValue ''tomorrow''"
  using time_tag_decoding [of stubLib "''2024-01-02T03:04:05+00:00''" 1704164645]
    time_tag_decoding [of stubLib "''tomorrow''"]
  by (simp add: stubLib_def)

section \<open>Helper facts on diagnostics, strings and examples\<close>

lemma HasError_simps [simp]:
  "HasError [] = False" "HasError (d # ds) = (IsError d \<or> HasError ds)"
  by (simp_all add: HasError_def)

lemma HasError_append [simp]: "HasError (xs @ ys) = (HasError xs \<or> HasError ys)"
  by (simp add: HasError_def)

lemma HasError_addDiag [simp]: "HasError (addDiag diags d) = (HasError diags \<or> IsError d)"
  by (auto simp: addDiag_def HasError_def list_ex_iff)

lemma Append_Nil [simp]: "Append diags [] = diags"
  by (simp add: Append_def)

lemma Append_Cons [simp]: "Append diags (d # ds) = Append (addDiag diags d) ds"
  by (simp add: Append_def)

lemma HasError_Append [simp]: "HasError (Append diags ds) = (HasError diags \<or> HasError ds)"
  by (induction ds arbitrary: diags) auto

lemma descr_sel [simp]:
  "Name (descr n t q ro) = n" "Type (descr n t q ro) = t"
  "Required (descr n t q ro) = q" "ReadOnly (descr n t q ro) = ro"
  by (simp_all add: descr_def)

lemma newAttrInfo_plain:
  "CHR ''.'' \<notin> set (Name a) \<Longrightarrow>
   newAttrInfo a = \<lparr>kaiakName = Name a, tfBlock = [], tfField = Name a, attr = a\<rparr>"
  by (simp add: newAttrInfo_def SplitN2_def)

lemma SplitN2_first_sep: "c \<notin> set a \<Longrightarrow> SplitN2 (a @ c # b) c = [a, b]"
proof -
  assume "c \<notin> set a"
  then have "takeWhile (\<lambda>x. x \<noteq> c) (a @ c # b) = a"
    and "dropWhile (\<lambda>x. x \<noteq> c) (a @ c # b) = c # b"
    by (induction a) auto
  then show ?thesis by (simp add: SplitN2_def)
qed

lemma SplitN2_cases:
  "(c \<notin> set s \<and> SplitN2 s c = [s]) \<or>
   (\<exists>a b. s = a @ c # b \<and> c \<notin> set a \<and> SplitN2 s c = [a, b])"
proof (cases "c \<in> set s")
  case False
  then show ?thesis by (simp add: SplitN2_def)
next
  case True
  then obtain a b where "s = a @ c # b" "c \<notin> set a"
    by (meson split_list_first)
  then show ?thesis using SplitN2_first_sep by blast
qed

lemma demo_label: "generateLabel [0xde, 0xad, 0xbe, 0xef] = ''tf_deadbeef''"
  by (simp add: generateLabel_def EncodeToString_def hexDigit_def)

lemma demo_infos:
  "getInfos (demoResource c) = [newAttrInfo (descr ''listen'' ''string'' False False)]"
  by (simp add: getInfos_def demoResource_def buildResourceSchema_def newAttrInfo_plain
        reserved_def seenKey_def HasError_def)

lemma demo_extract:
  "extractAttrs (demoResource c) stubLib demoPlan [] =
     ([''listen'' \<mapsto> DString '':9090''], [])"
  by (simp add: extractAttrs_def demo_infos newAttrInfo_plain extractSingleAttr_def
       GetAttribute_def demoPlan_def known_def HasPrefix_def)

section \<open>Instance controller: properties\<close>

lemma backfill_eq:
  "backfill infos F M k =
     (case M k of
        Some v \<Rightarrow> Some v
      | None \<Rightarrow>
          if (\<exists>info\<in>set infos. kaiakName info = k \<and> \<not> ReadOnly (attr info)) then F k
          else None)"
proof (induction infos arbitrary: M)
  case Nil
  then show ?case by (simp split: option.splits)
next
  case (Cons info infos)
  show ?case
  proof (cases "\<not> ReadOnly (attr info) \<and> M (kaiakName info) = None \<and>
      F (kaiakName info) \<noteq> None")
    case True
    then obtain pv where pv: "F (kaiakName info) = Some pv" by auto
    with True have "backfill (info # infos) F M k =
        backfill infos F (M(kaiakName info \<mapsto> pv)) k"
      by simp
    also have "\<dots> = (case (M(kaiakName info \<mapsto> pv)) k of Some v \<Rightarrow> Some v
         | None \<Rightarrow> if (\<exists>i\<in>set infos. kaiakName i = k \<and> \<not> ReadOnly (attr i)) then F k
                   else None)"
      by (rule Cons.IH)
    also have "\<dots> = (case M k of Some v \<Rightarrow> Some v
         | None \<Rightarrow> if (\<exists>i\<in>set (info # infos). kaiakName i = k \<and> \<not> ReadOnly (attr i))
                   then F k else None)"
      using True pv by (cases "k = kaiakName info") (auto split: option.splits)
    finally show ?thesis .
  next
    case False
    then have "backfill (info # infos) F M k = backfill infos F M k"
      by (auto split: option.splits)
    also have "\<dots> = (case M k of Some v \<Rightarrow> Some v
         | None \<Rightarrow> if (\<exists>i\<in>set infos. kaiakName i = k \<and> \<not> ReadOnly (attr i)) then F k
                   else None)"
      by (rule Cons.IH)
    also have "\<dots> = (case M k of Some v \<Rightarrow> Some v
         | None \<Rightarrow> if (\<exists>i\<in>set (info # infos). kaiakName i = k \<and> \<not> ReadOnly (attr i))
                   then F k else None)"
      using False by (cases "k = kaiakName info") (auto split: option.splits)
    finally show ?thesis .
  qed
qed

text \<open>
  The merge of \<open>writeState\<close> with server state \<open>S\<close> and planned values \<open>F\<close>: a key
  of \<open>S\<close> keeps the server's value; a key absent from \<open>S\<close> that is the name of an
  attribute that is not read-only takes its value of \<open>F\<close>, if \<open>F\<close> has one; every other
  key stays absent. Without planned values the merge is \<open>S\<close>.
\<close>

lemma mergeState_lookup:
  "mergeState infos S None = S \<and>
   mergeState infos S (Some F) k =
     (case S k of
        Some v \<Rightarrow> Some v
      | None \<Rightarrow>
          if (\<exists>info\<in>set infos. kaiakName info = k \<and> \<not> ReadOnly (attr info)) then F k
          else None)"
  by (simp add: mergeState_def backfill_eq)

section \<open>Schema translator: properties\<close>

lemma collectInfos_Cons:
  "collectInfos rn (a # as) st = collectInfos rn as (collectInfos rn [a] st)"
  by (cases st) (simp add: Let_def split: option.splits)

lemma collect_one:
  "collectInfos rn [a] (infos, seen, diags) = (infos2, seen2, diags2) \<Longrightarrow>
   (\<not> (tfBlock (newAttrInfo a) = [] \<and> reserved (tfField (newAttrInfo a))) \<and>
    seen (seenKey (newAttrInfo a)) = None \<and>
    infos2 = infos @ [newAttrInfo a] \<and>
    seen2 = seen(seenKey (newAttrInfo a) \<mapsto> Name a) \<and> diags2 = diags) \<or>
   ((tfBlock (newAttrInfo a) = [] \<and> reserved (tfField (newAttrInfo a)) \<or>
     seen (seenKey (newAttrInfo a)) \<noteq> None) \<and>
    infos2 = infos \<and> seen2 = seen \<and> HasError diags2)"
  by (auto simp: Let_def split: option.splits if_splits)

lemma collectInfos_error_kept:
  "HasError diags \<Longrightarrow> HasError (snd (snd (collectInfos rn as (infos, seen, diags))))"
proof (induction as arbitrary: infos seen diags)
  case Nil
  then show ?case by simp
next
  case (Cons a as)
  obtain infos2 seen2 diags2 where one: "collectInfos rn [a] (infos, seen, diags) = (infos2, seen2, diags2)"
    by (metis prod_cases3)
  from collect_one [OF one] Cons.prems have "HasError diags2" by auto
  then show ?case
    by (subst collectInfos_Cons) (simp only: one Cons.IH)
qed

lemma collectInfos_rejects:
  assumes "\<exists>a\<in>set as. (tfBlock (newAttrInfo a) = [] \<and> reserved (tfField (newAttrInfo a))) \<or>
      seen (seenKey (newAttrInfo a)) \<noteq> None"
  shows "HasError (snd (snd (collectInfos rn as (infos, seen, diags))))"
  using assms
proof (induction as arbitrary: infos seen diags)
  case Nil
  then show ?case by simp
next
  case (Cons a as)
  obtain infos2 seen2 diags2 where one: "collectInfos rn [a] (infos, seen, diags) = (infos2, seen2, diags2)"
    by (metis prod_cases3)
  show ?case
  proof (cases "HasError diags2")
    case True
    then show ?thesis
      by (subst collectInfos_Cons) (simp only: one collectInfos_error_kept)
  next
    case False
    with collect_one [OF one] have ok: "\<not> (tfBlock (newAttrInfo a) = [] \<and> reserved (tfField (newAttrInfo a)))"
      "seen (seenKey (newAttrInfo a)) = None" "seen2 = seen(seenKey (newAttrInfo a) \<mapsto> Name a)"
      by auto
    with Cons.prems have "\<exists>e\<in>set as. (tfBlock (newAttrInfo e) = [] \<and> reserved (tfField (newAttrInfo e))) \<or>
      seen2 (seenKey (newAttrInfo e)) \<noteq> None"
      by auto
    then have "HasError (snd (snd (collectInfos rn as (infos2, seen2, diags2))))"
      by (rule Cons.IH)
    then show ?thesis
      by (subst collectInfos_Cons) (simp only: one)
  qed
qed

lemma collectInfos_collision:
  assumes "\<not> distinct (map (\<lambda>a. (tfBlock (newAttrInfo a), tfField (newAttrInfo a))) as)"
  shows "HasError (snd (snd (collectInfos rn as (infos, seen, diags))))"
  using assms
proof (induction as arbitrary: infos seen diags)
  case Nil
  then show ?case by simp
next
  case (Cons a as)
  obtain infos2 seen2 diags2 where one: "collectInfos rn [a] (infos, seen, diags) = (infos2, seen2, diags2)"
    by (metis prod_cases3)
  show ?case
  proof (cases "distinct (map (\<lambda>a. (tfBlock (newAttrInfo a), tfField (newAttrInfo a))) as)")
    case False
    then have "HasError (snd (snd (collectInfos rn as (infos2, seen2, diags2))))"
      by (rule Cons.IH)
    then show ?thesis
      by (subst collectInfos_Cons) (simp only: one)
  next
    case True
    with Cons.prems obtain e where e: "e \<in> set as"
      "tfBlock (newAttrInfo e) = tfBlock (newAttrInfo a)" "tfField (newAttrInfo e) = tfField (newAttrInfo a)"
      by auto
    then have key: "seenKey (newAttrInfo e) = seenKey (newAttrInfo a)"
      by (simp add: seenKey_def)
    show ?thesis
    proof (cases "HasError diags2")
      case True
      then show ?thesis
        by (subst collectInfos_Cons) (simp only: one collectInfos_error_kept)
    next
      case False
      with collect_one [OF one] have "seen2 = seen(seenKey (newAttrInfo a) \<mapsto> Name a)"
        by auto
      with key e(1) have "\<exists>e\<in>set as. (tfBlock (newAttrInfo e) = [] \<and> reserved (tfField (newAttrInfo e))) \<or>
          seen2 (seenKey (newAttrInfo e)) \<noteq> None"
        by auto
      then have "HasError (snd (snd (collectInfos rn as (infos2, seen2, diags2))))"
        by (rule collectInfos_rejects)
      then show ?thesis
        by (subst collectInfos_Cons) (simp only: one)
    qed
  qed
qed

text \<open>
  Claim C2. When two descriptors of the list have the same block and field (after the
  split at the first dot and the replacement of the other dots), or when a descriptor is
  named \<open>name\<close> or \<open>id\<close>, \<open>buildResourceSchema\<close> returns the empty schema, no
  \<open>attrInfo\<close> at all, and diagnostics that hold an error.
\<close>

theorem schema_conflict_fails_wholesale:
  assumes "\<not> distinct (map (\<lambda>a. (tfBlock (newAttrInfo a), tfField (newAttrInfo a))) attrs) \<or>
     (\<exists>a\<in>set attrs. Name a = ''name'' \<or> Name a = ''id'')"
  shows "\<exists>diags. buildResourceSchema rn attrs = (empty_schema, [], diags) \<and> HasError diags"
proof -
  have "HasError (snd (snd (collectInfos rn attrs ([], Map.empty, []))))"
    using assms
  proof
    assume "\<not> distinct (map (\<lambda>a. (tfBlock (newAttrInfo a), tfField (newAttrInfo a))) attrs)"
    then show ?thesis by (rule collectInfos_collision)
  next
    assume "\<exists>a\<in>set attrs. Name a = ''name'' \<or> Name a = ''id''"
    then obtain a where a: "a \<in> set attrs" "Name a = ''name'' \<or> Name a = ''id''"
      by blast
    then have "CHR ''.'' \<notin> set (Name a)" by auto
    then have "newAttrInfo a = \<lparr>kaiakName = Name a, tfBlock = [], tfField = Name a, attr = a\<rparr>"
      by (rule newAttrInfo_plain)
    with a have "tfBlock (newAttrInfo a) = [] \<and> reserved (tfField (newAttrInfo a))"
      by (auto simp: reserved_def)
    with a(1) show ?thesis
      by (intro collectInfos_rejects) blast
  qed
  then show ?thesis
    by (auto simp: buildResourceSchema_def split: prod.splits)
qed

theorem schema_conflict_witness:
  "buildResourceSchema ''httpserver''
     [descr ''tls.cert_key'' ''string'' False False, descr ''tls.cert.key'' ''string'' False False] =
     (empty_schema, [],
      [ErrorDiag ''Attribute naming collision''
         (Sprintf ''Resource %q: attributes %q and %q both map to terraform field %q (block %q)''
            [''httpserver'', ''tls.cert_key'', ''tls.cert.key'', ''cert_key'', ''tls''])]) \<and>
   (\<exists>diags. buildResourceSchema ''httpserver'' [descr ''listen'' ''string'' False False, descr ''id'' ''string'' False False] =
     (empty_schema, [], diags) \<and> HasError diags)"
proof -
  have i1: "newAttrInfo (descr ''tls.cert_key'' t q ro) =
      \<lparr>kaiakName = ''tls.cert_key'', tfBlock = ''tls'', tfField = ''cert_key'',
       attr = descr ''tls.cert_key'' t q ro\<rparr>" for t q ro
    by (simp add: newAttrInfo_def SplitN2_def ReplaceAll_def)
  have i2: "newAttrInfo (descr ''tls.cert.key'' t q ro) =
      \<lparr>kaiakName = ''tls.cert.key'', tfBlock = ''tls'', tfField = ''cert_key'',
       attr = descr ''tls.cert.key'' t q ro\<rparr>" for t q ro
    by (simp add: newAttrInfo_def SplitN2_def ReplaceAll_def)
  have "\<exists>diags. buildResourceSchema ''httpserver''
     [descr ''tls.cert_key'' ''string'' False False, descr ''tls.cert.key'' ''string'' False False] =
     (empty_schema, [], diags) \<and> HasError diags"
    using schema_conflict_fails_wholesale [of "[descr ''tls.cert_key'' ''string'' False False, descr ''tls.cert.key'' ''string'' False False]" "''httpserver''"]
    by (simp add: i1 i2)
  moreover have "snd (snd (buildResourceSchema ''httpserver''
     [descr ''tls.cert_key'' ''string'' False False, descr ''tls.cert.key'' ''string'' False False])) =
      [ErrorDiag ''Attribute naming collision''
         (Sprintf ''Resource %q: attributes %q and %q both map to terraform field %q (block %q)''
            [''httpserver'', ''tls.cert_key'', ''tls.cert.key'', ''cert_key'', ''tls''])]"
    by (simp add: buildResourceSchema_def i1 i2 seenKey_def reserved_def addDiag_def)
  moreover have "\<exists>diags. buildResourceSchema ''httpserver'' [descr ''listen'' ''string'' False False, descr ''id'' ''string'' False False] =
     (empty_schema, [], diags) \<and> HasError diags"
    using schema_conflict_fails_wholesale [of "[descr ''listen'' ''string'' False False, descr ''id'' ''string'' False False]" "''httpserver''"]
    by simp
  ultimately show ?thesis by auto
qed

text \<open>A translation without error keeps every descriptor, in order, with distinct places.\<close>

lemma collectInfos_success:
  assumes "collectInfos rn as (infos, seen, diags) = (infos', seen', diags')"
    and "\<not> HasError diags'"
  shows "infos' = infos @ map newAttrInfo as \<and> diags' = diags"
  using assms
proof (induction as arbitrary: infos seen diags)
  case Nil
  then show ?case by simp
next
  case (Cons a as)
  obtain infos2 seen2 diags2 where one: "collectInfos rn [a] (infos, seen, diags) = (infos2, seen2, diags2)"
    by (metis prod_cases3)
  with Cons.prems(1) have rest: "collectInfos rn as (infos2, seen2, diags2) = (infos', seen', diags')"
    by (subst (asm) collectInfos_Cons) simp
  have "\<not> HasError diags2"
    using collectInfos_error_kept [of diags2 rn as infos2 seen2] rest Cons.prems(2) by auto
  with collect_one [OF one] have "infos2 = infos @ [newAttrInfo a]" "diags2 = diags"
    by auto
  with Cons.IH [OF rest Cons.prems(2)] show ?case by simp
qed

lemma collectInfos_distinct:
  assumes "collectInfos rn as (infos, seen, diags) = (infos', seen', diags')"
    and "\<not> HasError diags'"
    and "dom seen = seenKey ` set infos" and "distinct (map seenKey infos)"
  shows "distinct (map seenKey infos')"
  using assms
proof (induction as arbitrary: infos seen diags)
  case Nil
  then show ?case by simp
next
  case (Cons a as)
  obtain infos2 seen2 diags2 where one: "collectInfos rn [a] (infos, seen, diags) = (infos2, seen2, diags2)"
    by (metis prod_cases3)
  with Cons.prems(1) have rest: "collectInfos rn as (infos2, seen2, diags2) = (infos', seen', diags')"
    by (subst (asm) collectInfos_Cons) simp
  have "\<not> HasError diags2"
    using collectInfos_error_kept [of diags2 rn as infos2 seen2] rest Cons.prems(2) by auto
  with collect_one [OF one] have step: "infos2 = infos @ [newAttrInfo a]"
    "seen2 = seen(seenKey (newAttrInfo a) \<mapsto> Name a)" "seen (seenKey (newAttrInfo a)) = None"
    by auto
  from step(3) Cons.prems(3) have "seenKey (newAttrInfo a) \<notin> seenKey ` set infos"
    by auto
  with step Cons.prems(3,4) have "dom seen2 = seenKey ` set infos2" "distinct (map seenKey infos2)"
    by auto
  with Cons.IH [OF rest Cons.prems(2)] show ?case by simp
qed

lemma distinct_map_coarser:
  assumes "distinct (map f xs)" and "\<forall>x y. g x = g y \<longrightarrow> f x = f y"
  shows "distinct (map g xs)"
  using assms(1)
proof (induction xs)
  case Nil
  show ?case by simp
next
  case (Cons x xs)
  have "g x \<notin> g ` set xs"
  proof
    assume "g x \<in> g ` set xs"
    then obtain y where y: "y \<in> set xs" "g x = g y" by blast
    from y(2) assms(2) have "f x = f y" by blast
    with y(1) have "f x \<in> f ` set xs" by blast
    with Cons.prems show False by simp
  qed
  moreover from Cons have "distinct (map g xs)" by simp
  ultimately show ?case by simp
qed

lemma build_success:
  assumes "buildResourceSchema rn attrs = (s, infos, diags)" and "\<not> HasError diags"
  shows "infos = map newAttrInfo attrs" and "diags = []"
    and "distinct (map (\<lambda>i. (tfBlock i, tfField i)) infos)"
    and "Attributes s =
       nestBlocks (snd (groupAttrs infos (fixedAttrs, []))) (fst (groupAttrs infos (fixedAttrs, [])))"
proof -
  obtain infos' seen' diags' where c: "collectInfos rn attrs ([], Map.empty, []) = (infos', seen', diags')"
    by (metis prod_cases3)
  with assms have ne: "\<not> HasError diags'" and eq: "infos = infos'" "diags = diags'"
    by (auto simp: buildResourceSchema_def split: if_splits prod.splits)
  from collectInfos_success [OF c ne] eq show "infos = map newAttrInfo attrs" "diags = []"
    by auto
  have "distinct (map seenKey infos')"
    using collectInfos_distinct [OF c ne] by simp
  then have "distinct (map (\<lambda>i. (tfBlock i, tfField i)) infos')"
    by (rule distinct_map_coarser) (simp add: seenKey_def)
  with eq show "distinct (map (\<lambda>i. (tfBlock i, tfField i)) infos)" by simp
  from assms c ne eq show "Attributes s =
       nestBlocks (snd (groupAttrs infos (fixedAttrs, []))) (fst (groupAttrs infos (fixedAttrs, [])))"
    by (auto simp: buildResourceSchema_def split: if_splits prod.splits)
qed

lemma blockOf_update:
  "blockOf (AList.update b0 m blocks) b = (if b = b0 then m else blockOf blocks b)"
  by (simp add: blockOf_def update_conv')

lemma blockOf_Nil [simp]: "blockOf [] b = []"
  by (simp add: blockOf_def)

lemma groupAttrs_blocks:
  "b \<noteq> [] \<Longrightarrow>
   map_of (blockOf (snd (groupAttrs infos (tfAttrs, blocks))) b) =
     map_of (blockOf blocks b) ++
     map_of (rev (map (\<lambda>i. (tfField i, kaiakAttrToTF (attr i)))
                    (filter (\<lambda>i. tfBlock i = b) infos)))"
proof (induction infos arbitrary: tfAttrs blocks)
  case Nil
  show ?case by simp
next
  case (Cons info infos)
  show ?case
  proof (cases "tfBlock info = []")
    case True
    with Cons.prems have "tfBlock info \<noteq> b" by simp
    with True Cons.IH [OF Cons.prems] show ?thesis by simp
  next
    case False
    let ?blocks2 = "AList.update (tfBlock info)
            (AList.update (tfField info) (kaiakAttrToTF (attr info)) (blockOf blocks (tfBlock info))) blocks"
    from False have step: "groupAttrs (info # infos) (tfAttrs, blocks) = groupAttrs infos (tfAttrs, ?blocks2)"
      by (simp add: Let_def)
    have IH: "map_of (blockOf (snd (groupAttrs infos (tfAttrs, ?blocks2))) b) =
        map_of (blockOf ?blocks2 b) ++
        map_of (rev (map (\<lambda>i. (tfField i, kaiakAttrToTF (attr i)))
                      (filter (\<lambda>i. tfBlock i = b) infos)))"
      by (rule Cons.IH [OF Cons.prems])
    show ?thesis
    proof (cases "tfBlock info = b")
      case True
      have A: "map_of (blockOf ?blocks2 b) =
          map_of (blockOf blocks b) ++ [tfField info \<mapsto> kaiakAttrToTF (attr info)]"
        using True by (simp add: blockOf_update update_conv')
      have B: "map_of (rev (map (\<lambda>i. (tfField i, kaiakAttrToTF (attr i)))
                      (filter (\<lambda>i. tfBlock i = b) (info # infos)))) =
          [tfField info \<mapsto> kaiakAttrToTF (attr info)] ++
          map_of (rev (map (\<lambda>i. (tfField i, kaiakAttrToTF (attr i)))
                      (filter (\<lambda>i. tfBlock i = b) infos)))"
        using True by simp
      show ?thesis
        unfolding step IH A B by (simp only: map_add_assoc)
    next
      case False
      then have "blockOf ?blocks2 b = blockOf blocks b"
        by (simp add: blockOf_update)
      with False show ?thesis
        unfolding step IH by simp
    qed
  qed
qed

lemma groupAttrs_blocks_distinct:
  "distinct (map fst blocks) \<Longrightarrow>
   distinct (map fst (snd (groupAttrs infos (tfAttrs, blocks))))"
  by (induction infos arbitrary: tfAttrs blocks) (simp_all add: Let_def distinct_update)

lemma groupAttrs_members_distinct:
  "\<forall>b. distinct (map fst (blockOf blocks b)) \<Longrightarrow>
   distinct (map fst (blockOf (snd (groupAttrs infos (tfAttrs, blocks))) b))"
proof (induction infos arbitrary: tfAttrs blocks)
  case Nil
  then show ?case by simp
next
  case (Cons info infos)
  show ?case
  proof (cases "tfBlock info = []")
    case True
    with Cons show ?thesis by simp
  next
    case False
    let ?blocks2 = "AList.update (tfBlock info)
            (AList.update (tfField info) (kaiakAttrToTF (attr info)) (blockOf blocks (tfBlock info))) blocks"
    from False have step: "groupAttrs (info # infos) (tfAttrs, blocks) = groupAttrs infos (tfAttrs, ?blocks2)"
      by (simp add: Let_def)
    from Cons.prems have "\<forall>b. distinct (map fst (blockOf ?blocks2 b))"
      by (simp add: blockOf_update distinct_update)
    then show ?thesis
      unfolding step by (rule Cons.IH)
  qed
qed

lemma groupAttrs_blocks_dom:
  "(map_of (snd (groupAttrs infos (tfAttrs, blocks))) b \<noteq> None) =
   (map_of blocks b \<noteq> None \<or> (b \<noteq> [] \<and> b \<in> tfBlock ` set infos))"
proof (induction infos arbitrary: tfAttrs blocks)
  case Nil
  show ?case by simp
next
  case (Cons info infos)
  show ?case
  proof (cases "tfBlock info = []")
    case True
    then have "groupAttrs (info # infos) (tfAttrs, blocks) =
        groupAttrs infos (tfAttrs(tfField info \<mapsto> kaiakAttrToTF (attr info)), blocks)"
      by (simp add: Let_def)
    then have "(map_of (snd (groupAttrs (info # infos) (tfAttrs, blocks))) b \<noteq> None) =
        (map_of blocks b \<noteq> None \<or> (b \<noteq> [] \<and> b \<in> tfBlock ` set infos))"
      by (simp only: Cons.IH)
    also have "\<dots> = (map_of blocks b \<noteq> None \<or> (b \<noteq> [] \<and> b \<in> tfBlock ` set (info # infos)))"
      using True by auto
    finally show ?thesis .
  next
    case False
    let ?blocks2 = "AList.update (tfBlock info)
            (AList.update (tfField info) (kaiakAttrToTF (attr info)) (blockOf blocks (tfBlock info))) blocks"
    from False have "groupAttrs (info # infos) (tfAttrs, blocks) = groupAttrs infos (tfAttrs, ?blocks2)"
      by (simp add: Let_def)
    then have "(map_of (snd (groupAttrs (info # infos) (tfAttrs, blocks))) b \<noteq> None) =
        (map_of ?blocks2 b \<noteq> None \<or> (b \<noteq> [] \<and> b \<in> tfBlock ` set infos))"
      by (simp only: Cons.IH)
    also have "\<dots> = (map_of blocks b \<noteq> None \<or> (b \<noteq> [] \<and> b \<in> tfBlock ` set (info # infos)))"
      using False by (auto simp: update_conv')
    finally show ?thesis .
  qed
qed

lemma groupAttrs_top:
  "fst (groupAttrs infos (tfAttrs, blocks)) k = Some x \<Longrightarrow>
   tfAttrs k = Some x \<or> (\<exists>i\<in>set infos. x = kaiakAttrToTF (attr i))"
proof (induction infos arbitrary: tfAttrs blocks)
  case Nil
  then show ?case by simp
next
  case (Cons info infos)
  show ?case
  proof (cases "tfBlock info = []")
    case True
    with Cons.prems have "fst (groupAttrs infos (tfAttrs(tfField info \<mapsto> kaiakAttrToTF (attr info)), blocks)) k = Some x"
      by (simp add: Let_def)
    from Cons.IH [OF this] show ?thesis
      by (auto split: if_splits)
  next
    case False
    with Cons.prems have "fst (groupAttrs infos (tfAttrs, AList.update (tfBlock info)
            (AList.update (tfField info) (kaiakAttrToTF (attr info)) (blockOf blocks (tfBlock info))) blocks)) k = Some x"
      by (simp add: Let_def)
    from Cons.IH [OF this] show ?thesis by auto
  qed
qed

lemma nestBlocks_lookup:
  "distinct (map fst blocks) \<Longrightarrow>
   nestBlocks blocks tfAttrs b =
     (case map_of blocks b of Some m \<Rightarrow> Some (nestedBlock m) | None \<Rightarrow> tfAttrs b)"
proof (induction blocks arbitrary: tfAttrs)
  case Nil
  show ?case by simp
next
  case (Cons p blocks)
  obtain k m where p: "p = (k, m)" by (cases p)
  with Cons.prems have "map_of blocks k = None" "distinct (map fst blocks)"
    by (auto simp: map_of_eq_None_iff)
  with p Cons.IH show ?case
    by (auto split: option.splits)
qed

lemma kaiakAttrToTF_leaf: "kaiakAttrToTF a \<noteq> SingleNestedAttribute m fl"
  by (simp add: kaiakAttrToTF_def Let_def)

lemma leafRequired_kaiakAttrToTF: "leafRequired (kaiakAttrToTF a) = Required a"
  by (simp add: kaiakAttrToTF_def Let_def)

lemma fixedAttrs_leaf: "fixedAttrs k \<noteq> Some (SingleNestedAttribute m fl)"
  by (simp add: fixedAttrs_def)

lemma blockRequired_map_of:
  "distinct (map fst m) \<Longrightarrow>
   blockRequired m = (\<exists>k x. map_of m k = Some x \<and> leafRequired x)"
  by (force simp: blockRequired_def list_ex_iff)

lemma members_distinct:
  "distinct (map (\<lambda>i. (tfBlock i, tfField i)) infos) \<Longrightarrow>
   distinct (map fst (map (\<lambda>i. (tfField i, kaiakAttrToTF (attr i)))
                        (filter (\<lambda>i. tfBlock i = b) infos)))"
  by (induction infos) (auto simp: image_iff)

lemma attr_newAttrInfo [simp]: "attr (newAttrInfo a) = a"
  by (simp add: newAttrInfo_def Let_def)

text \<open>
  The schema of a translation without error: the block of every non-empty block name, and
  below it the top-level attributes. The members of a block are the descriptors with its
  name, each at its field.
\<close>

lemma build_attributes:
  assumes "buildResourceSchema rn attrs = (s, infos, diags)" and "\<not> HasError diags"
  shows "\<exists>tfAttrs blocks.
      groupAttrs (map newAttrInfo attrs) (fixedAttrs, []) = (tfAttrs, blocks) \<and>
      (\<forall>b. Attributes s b =
         (if b \<noteq> [] \<and> b \<in> (\<lambda>a. tfBlock (newAttrInfo a)) ` set attrs
          then Some (nestedBlock (blockOf blocks b)) else tfAttrs b)) \<and>
      (\<forall>b f x. b \<noteq> [] \<longrightarrow>
         (map_of (blockOf blocks b) f = Some x) =
         (\<exists>a\<in>set attrs. tfBlock (newAttrInfo a) = b \<and> tfField (newAttrInfo a) = f \<and>
            x = kaiakAttrToTF a)) \<and>
      (\<forall>b. distinct (map fst (blockOf blocks b))) \<and>
      (\<forall>k m fl. tfAttrs k \<noteq> Some (SingleNestedAttribute m fl))"
proof -
  note ok = build_success [OF assms]
  obtain tfAttrs blocks where g: "groupAttrs (map newAttrInfo attrs) (fixedAttrs, []) = (tfAttrs, blocks)"
    by (cases "groupAttrs (map newAttrInfo attrs) (fixedAttrs, [])")
  have blocks: "blocks = snd (groupAttrs (map newAttrInfo attrs) (fixedAttrs, []))"
    and tfAttrs: "tfAttrs = fst (groupAttrs (map newAttrInfo attrs) (fixedAttrs, []))"
    using g by simp_all
  have d: "distinct (map fst blocks)"
    unfolding blocks by (rule groupAttrs_blocks_distinct) simp
  have dom: "(map_of blocks b \<noteq> None) = (b \<noteq> [] \<and> b \<in> (\<lambda>a. tfBlock (newAttrInfo a)) ` set attrs)" for b
    unfolding blocks by (simp only: groupAttrs_blocks_dom) (simp add: image_image)
  have "Attributes s b =
         (if b \<noteq> [] \<and> b \<in> (\<lambda>a. tfBlock (newAttrInfo a)) ` set attrs
          then Some (nestedBlock (blockOf blocks b)) else tfAttrs b)" for b
  proof -
    have "Attributes s b = nestBlocks blocks tfAttrs b"
      using ok(4) ok(1) g by simp
    also have "\<dots> = (case map_of blocks b of Some m \<Rightarrow> Some (nestedBlock m) | None \<Rightarrow> tfAttrs b)"
      using d by (rule nestBlocks_lookup)
    also have "\<dots> = (if b \<noteq> [] \<and> b \<in> (\<lambda>a. tfBlock (newAttrInfo a)) ` set attrs
          then Some (nestedBlock (blockOf blocks b)) else tfAttrs b)"
      using dom [of b] by (auto simp: blockOf_def split: option.splits)
    finally show ?thesis .
  qed
  moreover have "(map_of (blockOf blocks b) f = Some x) =
         (\<exists>a\<in>set attrs. tfBlock (newAttrInfo a) = b \<and> tfField (newAttrInfo a) = f \<and>
            x = kaiakAttrToTF a)" if "b \<noteq> []" for b f x
  proof -
    let ?ms = "map (\<lambda>i. (tfField i, kaiakAttrToTF (attr i)))
                 (filter (\<lambda>i. tfBlock i = b) (map newAttrInfo attrs))"
    have "map_of (blockOf blocks b) = map_of (rev ?ms)"
      unfolding blocks using groupAttrs_blocks [OF that, of "map newAttrInfo attrs" fixedAttrs "[]"]
      by simp
    moreover have "distinct (map fst (rev ?ms))"
      using members_distinct [of "map newAttrInfo attrs" b] ok(1,3)
      by (simp only: distinct_rev rev_map [symmetric])
    ultimately have "(map_of (blockOf blocks b) f = Some x) = ((f, x) \<in> set ?ms)"
      by simp
    also have "\<dots> = (\<exists>a\<in>set attrs. tfBlock (newAttrInfo a) = b \<and> tfField (newAttrInfo a) = f \<and>
            x = kaiakAttrToTF a)"
      by auto
    finally show ?thesis .
  qed
  moreover have "distinct (map fst (blockOf blocks b))" for b
    unfolding blocks by (rule groupAttrs_members_distinct) simp
  moreover have "tfAttrs k \<noteq> Some (SingleNestedAttribute m fl)" for k m fl
  proof
    assume "tfAttrs k = Some (SingleNestedAttribute m fl)"
    from groupAttrs_top [OF this [unfolded tfAttrs]]
    show False by (auto simp: fixedAttrs_leaf kaiakAttrToTF_leaf [symmetric])
  qed
  ultimately show ?thesis using g by blast
qed

text \<open>
  Claim C3. In the schema of a translation without error, every descriptor with a block
  name lies in a nested attribute at that name, and a nested attribute at a name \<open>b\<close> is
  required exactly when some descriptor of the list with block name \<open>b\<close> is required;
  when none is, it is optional and computed, and when one is, it is neither.
\<close>

theorem block_required_iff_member_required:
  assumes "buildResourceSchema rn attrs = (s, infos, diags)" and "\<not> HasError diags"
  shows "(\<forall>a\<in>set attrs. tfBlock (newAttrInfo a) \<noteq> [] \<longrightarrow>
            (\<exists>m fl. Attributes s (tfBlock (newAttrInfo a)) = Some (SingleNestedAttribute m fl) \<and>
               map_of m (tfField (newAttrInfo a)) = Some (kaiakAttrToTF a))) \<and>
         (\<forall>b m fl. Attributes s b = Some (SingleNestedAttribute m fl) \<longrightarrow>
            tf_Required fl = (\<exists>a\<in>set attrs. tfBlock (newAttrInfo a) = b \<and> Required a) \<and>
            tf_Optional fl = (\<not> tf_Required fl) \<and> tf_Computed fl = (\<not> tf_Required fl))"
proof -
  from build_attributes [OF assms] obtain tfAttrs blocks where
    A: "\<And>b. Attributes s b =
         (if b \<noteq> [] \<and> b \<in> (\<lambda>a. tfBlock (newAttrInfo a)) ` set attrs
          then Some (nestedBlock (blockOf blocks b)) else tfAttrs b)"
    and M: "\<And>b f x. b \<noteq> [] \<Longrightarrow>
         (map_of (blockOf blocks b) f = Some x) =
         (\<exists>a\<in>set attrs. tfBlock (newAttrInfo a) = b \<and> tfField (newAttrInfo a) = f \<and>
            x = kaiakAttrToTF a)"
    and D: "\<And>b. distinct (map fst (blockOf blocks b))"
    and L: "\<And>k m fl. tfAttrs k \<noteq> Some (SingleNestedAttribute m fl)"
    by blast
  have req: "blockRequired (blockOf blocks b) =
      (\<exists>a\<in>set attrs. tfBlock (newAttrInfo a) = b \<and> Required a)" if "b \<noteq> []" for b
    unfolding blockRequired_map_of [OF D] M [OF that]
    by (metis leafRequired_kaiakAttrToTF)
  show ?thesis
  proof (intro conjI ballI allI impI)
    fix a
    assume a: "a \<in> set attrs" "tfBlock (newAttrInfo a) \<noteq> []"
    then have "Attributes s (tfBlock (newAttrInfo a)) =
        Some (nestedBlock (blockOf blocks (tfBlock (newAttrInfo a))))"
      by (simp add: A)
    moreover have "map_of (blockOf blocks (tfBlock (newAttrInfo a))) (tfField (newAttrInfo a)) =
        Some (kaiakAttrToTF a)"
      using a by (subst M) auto
    ultimately show "\<exists>m fl. Attributes s (tfBlock (newAttrInfo a)) = Some (SingleNestedAttribute m fl) \<and>
               map_of m (tfField (newAttrInfo a)) = Some (kaiakAttrToTF a)"
      by (simp add: nestedBlock_def Let_def)
  next
    fix b m fl
    assume "Attributes s b = Some (SingleNestedAttribute m fl)"
    with A [of b] L [of b m fl] have b: "b \<noteq> []"
      and n: "nestedBlock (blockOf blocks b) = SingleNestedAttribute m fl"
      by (auto split: if_splits)
    from n have "m = blockOf blocks b" "tf_Required fl = blockRequired m"
      "tf_Optional fl = (\<not> blockRequired m)" "tf_Computed fl = (\<not> blockRequired m)"
      by (auto simp: nestedBlock_def Let_def)
    with req [OF b] show "tf_Required fl = (\<exists>a\<in>set attrs. tfBlock (newAttrInfo a) = b \<and> Required a)"
      "tf_Optional fl = (\<not> tf_Required fl)" "tf_Computed fl = (\<not> tf_Required fl)"
      by simp_all
  qed
qed

lemma tls_infos:
  "map newAttrInfo tlsAttrs =
     [\<lparr>kaiakName = ''listen'', tfBlock = [], tfField = ''listen'',
       attr = descr ''listen'' ''string'' True False\<rparr>,
      \<lparr>kaiakName = ''tls.cert'', tfBlock = ''tls'', tfField = ''cert'',
       attr = descr ''tls.cert'' ''string'' True False\<rparr>,
      \<lparr>kaiakName = ''tls.key'', tfBlock = ''tls'', tfField = ''key'',
       attr = descr ''tls.key'' ''string'' False False\<rparr>,
      \<lparr>kaiakName = ''log.level'', tfBlock = ''log'', tfField = ''level'',
       attr = descr ''log.level'' ''string'' False False\<rparr>]"
  by (simp add: tlsAttrs_def newAttrInfo_def SplitN2_def ReplaceAll_def)

lemma tls_ok: "snd (snd (buildResourceSchema ''httpserver'' tlsAttrs)) = []"
proof -
  have "collectInfos ''httpserver'' tlsAttrs ([], Map.empty, []) =
      (map newAttrInfo tlsAttrs,
       [''/listen'' \<mapsto> ''listen'', ''tls/cert'' \<mapsto> ''tls.cert'', ''tls/key'' \<mapsto> ''tls.key'',
        ''log/level'' \<mapsto> ''log.level''], [])"
    unfolding tls_infos
    by (simp add: tlsAttrs_def newAttrInfo_def SplitN2_def ReplaceAll_def seenKey_def reserved_def)
  then show ?thesis
    by (simp add: buildResourceSchema_def split: prod.splits)
qed

theorem block_required_witness:
  "(\<exists>m fl. Attributes (fst (buildResourceSchema ''httpserver'' tlsAttrs)) ''tls'' =
       Some (SingleNestedAttribute m fl) \<and>
     tf_Required fl \<and> \<not> tf_Optional fl \<and> \<not> tf_Computed fl) \<and>
   (\<exists>m fl. Attributes (fst (buildResourceSchema ''httpserver'' tlsAttrs)) ''log'' =
       Some (SingleNestedAttribute m fl) \<and>
     \<not> tf_Required fl \<and> tf_Optional fl \<and> tf_Computed fl)"
proof -
  obtain s infos where b: "buildResourceSchema ''httpserver'' tlsAttrs = (s, infos, [])"
    using tls_ok by (metis prod.collapse)
  have ne: "\<not> HasError []" by simp
  note th = block_required_iff_member_required [OF b ne]
  have blk: "map (\<lambda>a. tfBlock (newAttrInfo a)) tlsAttrs = [[], ''tls'', ''tls'', ''log'']"
    using tls_infos by (simp add: tlsAttrs_def)
  have req: "map Required tlsAttrs = [True, True, False, False]"
    by (simp add: tlsAttrs_def)
  have r1: "(\<exists>a\<in>set tlsAttrs. tfBlock (newAttrInfo a) = ''tls'' \<and> Required a)"
    using blk by (simp add: tlsAttrs_def)
  have r2: "\<not> (\<exists>a\<in>set tlsAttrs. tfBlock (newAttrInfo a) = ''log'' \<and> Required a)"
    using blk by (simp add: tlsAttrs_def)
  have m1: "descr ''tls.cert'' ''string'' True False \<in> set tlsAttrs"
    "tfBlock (newAttrInfo (descr ''tls.cert'' ''string'' True False)) = ''tls''"
    using blk by (simp_all add: tlsAttrs_def)
  have m2: "descr ''log.level'' ''string'' False False \<in> set tlsAttrs"
    "tfBlock (newAttrInfo (descr ''log.level'' ''string'' False False)) = ''log''"
    using blk by (simp_all add: tlsAttrs_def)
  from th m1 obtain ma fa where a: "Attributes s ''tls'' = Some (SingleNestedAttribute ma fa)"
    by fastforce
  from th m2 obtain mb fb where bb: "Attributes s ''log'' = Some (SingleNestedAttribute mb fb)"
    by fastforce
  from th a r1 have "tf_Required fa \<and> \<not> tf_Optional fa \<and> \<not> tf_Computed fa"
    by blast
  moreover from th bb r2 have "\<not> tf_Required fb \<and> tf_Optional fb \<and> tf_Computed fb"
    by blast
  ultimately show ?thesis
    using a bb b by auto
qed

text \<open>
  Claim C9. A descriptor whose block name is \<open>name\<close> or \<open>id\<close> passes the reserved-name
  check: alone it translates without any diagnostic, and in every translation without
  error it is kept, there is no diagnostic, and the schema holds at that reserved name
  the nested attribute of the block, with the descriptor among its members, where the
  fixed string attribute was.
\<close>

theorem reserved_block_name_replaces_fixed:
  assumes "tfBlock (newAttrInfo a) = b" and "b = ''name'' \<or> b = ''id''"
  shows "snd (snd (buildResourceSchema rn [a])) = [] \<and>
    (a \<in> set attrs \<and> buildResourceSchema rn attrs = (s, infos, diags) \<and> \<not> HasError diags \<longrightarrow>
       diags = [] \<and> newAttrInfo a \<in> set infos \<and>
       (\<exists>fl pm. fixedAttrs b = Some (StringAttribute fl pm)) \<and>
       (\<exists>m fl. Attributes s b = Some (SingleNestedAttribute m fl) \<and>
          map_of m (tfField (newAttrInfo a)) = Some (kaiakAttrToTF a)))"
proof (intro conjI impI)
  from assms have ne: "tfBlock (newAttrInfo a) \<noteq> []" by auto
  then have "collectInfos rn [a] ([], Map.empty, []) =
      ([newAttrInfo a], [seenKey (newAttrInfo a) \<mapsto> Name a], [])"
    by (simp add: Let_def)
  then show "snd (snd (buildResourceSchema rn [a])) = []"
    by (simp add: buildResourceSchema_def split: prod.splits)
  from assms(2) show "\<exists>fl pm. fixedAttrs b = Some (StringAttribute fl pm)"
    by (auto simp: fixedAttrs_def)
  assume h: "a \<in> set attrs \<and> buildResourceSchema rn attrs = (s, infos, diags) \<and> \<not> HasError diags"
  then have b: "buildResourceSchema rn attrs = (s, infos, diags)" and e: "\<not> HasError diags"
    by simp_all
  from build_success(1,2) [OF b e] h show "diags = []" "newAttrInfo a \<in> set infos"
    by simp_all
  from build_attributes [OF b e] obtain tfAttrs blocks where
    A: "\<And>b. Attributes s b =
         (if b \<noteq> [] \<and> b \<in> (\<lambda>a. tfBlock (newAttrInfo a)) ` set attrs
          then Some (nestedBlock (blockOf blocks b)) else tfAttrs b)"
    and M: "\<And>b f x. b \<noteq> [] \<Longrightarrow>
         (map_of (blockOf blocks b) f = Some x) =
         (\<exists>a\<in>set attrs. tfBlock (newAttrInfo a) = b \<and> tfField (newAttrInfo a) = f \<and>
            x = kaiakAttrToTF a)"
    by blast
  from h ne assms(1) have "Attributes s b = Some (nestedBlock (blockOf blocks b))"
    by (subst A) auto
  moreover from h ne assms(1)
  have "map_of (blockOf blocks b) (tfField (newAttrInfo a)) = Some (kaiakAttrToTF a)"
    by (subst M) auto
  ultimately show "\<exists>m fl. Attributes s b = Some (SingleNestedAttribute m fl) \<and>
          map_of m (tfField (newAttrInfo a)) = Some (kaiakAttrToTF a)"
    by (simp add: nestedBlock_def Let_def)
qed

theorem reserved_block_name_witness:
  "snd (snd (buildResourceSchema ''httpserver'' [descr ''name.x'' ''string'' False False])) = [] \<and>
   (\<exists>m fl. Attributes (fst (buildResourceSchema ''httpserver''
                [descr ''listen'' ''string'' False False, descr ''name.x'' ''string'' False False]))
              ''name'' = Some (SingleNestedAttribute m fl) \<and>
            map_of m ''x'' = Some (kaiakAttrToTF (descr ''name.x'' ''string'' False False)))"
proof -
  let ?a = "descr ''name.x'' ''string'' False False"
  let ?attrs = "[descr ''listen'' ''string'' False False, ?a]"
  have i: "newAttrInfo ?a = \<lparr>kaiakName = ''name.x'', tfBlock = ''name'', tfField = ''x'', attr = ?a\<rparr>"
    by (simp add: newAttrInfo_def SplitN2_def ReplaceAll_def)
  have "collectInfos ''httpserver'' ?attrs ([], Map.empty, []) =
      (map newAttrInfo ?attrs, [''/listen'' \<mapsto> ''listen'', ''name/x'' \<mapsto> ''name.x''], [])"
    by (simp add: i newAttrInfo_plain seenKey_def reserved_def)
  then have "snd (snd (buildResourceSchema ''httpserver'' ?attrs)) = []"
    by (simp add: buildResourceSchema_def split: prod.splits)
  then obtain s infos where b: "buildResourceSchema ''httpserver'' ?attrs = (s, infos, [])"
    by (metis prod.collapse)
  from reserved_block_name_replaces_fixed [of ?a "''name''" "''httpserver''" ?attrs s infos "[]"] b i
  show ?thesis by simp
qed

section \<open>Extraction: properties\<close>

lemma known_GetAttribute:
  "GetAttribute src p kd = (v, d) \<Longrightarrow> known v = Some x \<Longrightarrow>
   src p = Some x \<and> kindOf x = kd \<and> \<not> IsNull x \<and> \<not> IsUnknown x"
  by (auto simp: known_def GetAttribute_def split: option.splits if_splits)

lemma extractSingleAttr_new:
  assumes "fst (extractSingleAttr lib src p info (state, diags)) k = Some g"
  shows "state k = Some g \<or>
    (k = kaiakName info \<and> (\<exists>v. src p = Some v \<and> \<not> IsNull v \<and> \<not> IsUnknown v))"
  using assms unfolding extractSingleAttr_def Let_def
  by (auto split: if_splits prod.splits option.splits dest: known_GetAttribute)

lemma extractTopLevel_new:
  "fst (extractTopLevel lib src infos (state, diags)) k = Some g \<Longrightarrow>
   state k = Some g \<or>
   (\<exists>info\<in>set infos. kaiakName info = k \<and> \<not> ReadOnly (attr info) \<and> tfBlock info = [] \<and>
      (\<exists>v. src (tfField info) = Some v \<and> \<not> IsNull v \<and> \<not> IsUnknown v))"
proof (induction infos arbitrary: state diags)
  case Nil
  then show ?case by simp
next
  case (Cons info infos)
  show ?case
  proof (cases "ReadOnly (attr info) \<or> tfBlock info \<noteq> []")
    case True
    with Cons.prems have "fst (extractTopLevel lib src infos (state, diags)) k = Some g"
      by simp
    from Cons.IH [OF this] show ?thesis by auto
  next
    case False
    obtain state2 diags2 where one:
      "extractSingleAttr lib src (tfField info) info (state, diags) = (state2, diags2)"
      by (cases "extractSingleAttr lib src (tfField info) info (state, diags)")
    with False Cons.prems have "fst (extractTopLevel lib src infos (state2, diags2)) k = Some g"
      by simp
    from Cons.IH [OF this] show ?thesis
    proof
      assume "state2 k = Some g"
      then have "fst (extractSingleAttr lib src (tfField info) info (state, diags)) k = Some g"
        by (simp add: one)
      from extractSingleAttr_new [OF this] False show ?thesis by auto
    next
      assume "\<exists>info\<in>set infos. kaiakName info = k \<and> \<not> ReadOnly (attr info) \<and> tfBlock info = [] \<and>
        (\<exists>v. src (tfField info) = Some v \<and> \<not> IsNull v \<and> \<not> IsUnknown v)"
      then show ?thesis by auto
    qed
  qed
qed

lemma extractBlockAttr_new:
  "extractBlockAttr lib info v state k = Some g \<Longrightarrow>
   state k = Some g \<or> (k = kaiakName info \<and> \<not> IsNull v \<and> \<not> IsUnknown v)"
  unfolding extractBlockAttr_def Let_def
  by (auto split: if_splits)

lemma extractMembers_new:
  "extractMembers lib attrs infos state k = Some g \<Longrightarrow>
   state k = Some g \<or>
   (\<exists>info\<in>set infos. kaiakName info = k \<and>
      (\<exists>v. attrs (tfField info) = Some v \<and> \<not> IsNull v \<and> \<not> IsUnknown v))"
proof (induction infos arbitrary: state)
  case Nil
  then show ?case by simp
next
  case (Cons info infos)
  show ?case
  proof (cases "attrs (tfField info)")
    case None
    with Cons.prems have "extractMembers lib attrs infos state k = Some g"
      by simp
    from Cons.IH [OF this] show ?thesis by auto
  next
    case (Some v)
    with Cons.prems have "extractMembers lib attrs infos (extractBlockAttr lib info v state) k = Some g"
      by simp
    from Cons.IH [OF this] show ?thesis
    proof
      assume "extractBlockAttr lib info v state k = Some g"
      from extractBlockAttr_new [OF this] Some show ?thesis by auto
    next
      assume "\<exists>info\<in>set infos. kaiakName info = k \<and>
        (\<exists>v. attrs (tfField info) = Some v \<and> \<not> IsNull v \<and> \<not> IsUnknown v)"
      then show ?thesis by auto
    qed
  qed
qed

lemma extractBlocks_new:
  "fst (extractBlocks lib src groups (state, diags)) k = Some g \<Longrightarrow>
   state k = Some g \<or>
   (\<exists>bg\<in>set groups. \<exists>info\<in>set (snd bg). kaiakName info = k \<and>
      (\<exists>obj v. src (fst bg) = Some obj \<and> kindOf obj = KObject \<and> \<not> IsNull obj \<and>
         \<not> IsUnknown obj \<and> map_of (ObjectAttributes obj) (tfField info) = Some v \<and>
         \<not> IsNull v \<and> \<not> IsUnknown v))"
proof (induction groups arbitrary: state diags)
  case Nil
  then show ?case by simp
next
  case (Cons bg groups)
  obtain b infos where bg: "bg = (b, infos)" by (cases bg)
  obtain block d where ga: "GetAttribute src b KObject = (block, d)"
    by (cases "GetAttribute src b KObject")
  show ?case
  proof (cases "known block")
    case None
    with Cons.prems bg ga have "fst (extractBlocks lib src groups (state, Append diags d)) k = Some g"
      by simp
    from Cons.IH [OF this] show ?thesis by auto
  next
    case (Some obj)
    from known_GetAttribute [OF ga Some]
    have obj: "src b = Some obj" "kindOf obj = KObject" "\<not> IsNull obj" "\<not> IsUnknown obj"
      by simp_all
    from Cons.prems bg ga Some
    have "fst (extractBlocks lib src groups
        (extractMembers lib (map_of (ObjectAttributes obj)) infos state, Append diags d)) k = Some g"
      by simp
    from Cons.IH [OF this] show ?thesis
    proof
      assume "extractMembers lib (map_of (ObjectAttributes obj)) infos state k = Some g"
      from extractMembers_new [OF this] obj bg show ?thesis by fastforce
    next
      assume "\<exists>bg\<in>set groups. \<exists>info\<in>set (snd bg). kaiakName info = k \<and>
        (\<exists>obj v. src (fst bg) = Some obj \<and> kindOf obj = KObject \<and> \<not> IsNull obj \<and>
         \<not> IsUnknown obj \<and> map_of (ObjectAttributes obj) (tfField info) = Some v \<and>
         \<not> IsNull v \<and> \<not> IsUnknown v)"
      then show ?thesis by auto
    qed
  qed
qed

lemma set_update_cases:
  "x \<in> set (AList.update k v al) \<Longrightarrow> x \<in> set al \<or> x = (k, v)"
  by (induction al) (auto split: if_splits)

lemma writableBlockGroups_members:
  "bg \<in> set (writableBlockGroups infos groups) \<Longrightarrow> i \<in> set (snd bg) \<Longrightarrow>
   (\<exists>bg'\<in>set groups. fst bg' = fst bg \<and> i \<in> set (snd bg')) \<or>
   (i \<in> set infos \<and> \<not> ReadOnly (attr i) \<and> tfBlock i = fst bg \<and> tfBlock i \<noteq> [])"
proof (induction infos arbitrary: groups)
  case Nil
  then show ?case by auto
next
  case (Cons info infos)
  show ?case
  proof (cases "ReadOnly (attr info) \<or> tfBlock info = []")
    case True
    with Cons.prems have "bg \<in> set (writableBlockGroups infos groups)"
      by simp
    from Cons.IH [OF this Cons.prems(2)] show ?thesis by auto
  next
    case False
    let ?groups2 = "AList.update (tfBlock info) (groupOf groups (tfBlock info) @ [info]) groups"
    from False Cons.prems have "bg \<in> set (writableBlockGroups infos ?groups2)"
      by simp
    from Cons.IH [OF this Cons.prems(2)] show ?thesis
    proof
      assume "\<exists>bg'\<in>set ?groups2. fst bg' = fst bg \<and> i \<in> set (snd bg')"
      then obtain bg' where bg': "bg' \<in> set ?groups2" "fst bg' = fst bg" "i \<in> set (snd bg')"
        by blast
      from bg'(1) have "bg' \<in> set groups \<or> bg' = (tfBlock info, groupOf groups (tfBlock info) @ [info])"
        by (rule set_update_cases)
      then show ?thesis
      proof
        assume "bg' \<in> set groups"
        with bg' show ?thesis by auto
      next
        assume e: "bg' = (tfBlock info, groupOf groups (tfBlock info) @ [info])"
        with bg' have "i = info \<or> i \<in> set (groupOf groups (tfBlock info))"
          by auto
        then show ?thesis
        proof
          assume "i = info"
          with e bg' False show ?thesis by auto
        next
          assume "i \<in> set (groupOf groups (tfBlock info))"
          then obtain g where "map_of groups (tfBlock info) = Some g" "i \<in> set g"
            by (cases "map_of groups (tfBlock info)") (auto simp: groupOf_def)
          then have "(tfBlock info, g) \<in> set groups" "i \<in> set g"
            by (auto dest: map_of_SomeD)
          moreover from e bg'(2) have "fst bg = tfBlock info" by simp
          ultimately have "\<exists>bg'\<in>set groups. fst bg' = fst bg \<and> i \<in> set (snd bg')"
            by (intro bexI [of _ "(tfBlock info, g)"]) simp_all
          then show ?thesis ..
        qed
      qed
    next
      assume "i \<in> set infos \<and> \<not> ReadOnly (attr i) \<and> tfBlock i = fst bg \<and> tfBlock i \<noteq> []"
      then show ?thesis by auto
    qed
  qed
qed

lemma extractAttrs_new:
  assumes "fst (extractAttrs r lib src diags) k = Some g"
  shows "\<exists>info\<in>set (getInfos r). kaiakName info = k \<and> \<not> ReadOnly (attr info) \<and>
    plannedKnown src info"
proof -
  obtain st1 d1 where top: "extractTopLevel lib src (getInfos r) (Map.empty, diags) = (st1, d1)"
    by (cases "extractTopLevel lib src (getInfos r) (Map.empty, diags)")
  with assms have "fst (extractBlocks lib src (writableBlockGroups (getInfos r) []) (st1, d1)) k = Some g"
    by (simp add: extractAttrs_def)
  from extractBlocks_new [OF this] show ?thesis
  proof
    assume "st1 k = Some g"
    then have "fst (extractTopLevel lib src (getInfos r) (Map.empty, diags)) k = Some g"
      by (simp add: top)
    from extractTopLevel_new [OF this] show ?thesis
      by (auto simp: plannedKnown_def plannedValue_def)
  next
    assume "\<exists>bg\<in>set (writableBlockGroups (getInfos r) []). \<exists>info\<in>set (snd bg). kaiakName info = k \<and>
      (\<exists>obj v. src (fst bg) = Some obj \<and> kindOf obj = KObject \<and> \<not> IsNull obj \<and>
         \<not> IsUnknown obj \<and> map_of (ObjectAttributes obj) (tfField info) = Some v \<and>
         \<not> IsNull v \<and> \<not> IsUnknown v)"
    then obtain bg info obj v where bg: "bg \<in> set (writableBlockGroups (getInfos r) [])"
      and info: "info \<in> set (snd bg)" "kaiakName info = k"
      and obj: "src (fst bg) = Some obj" "kindOf obj = KObject" "\<not> IsNull obj" "\<not> IsUnknown obj"
      and v: "map_of (ObjectAttributes obj) (tfField info) = Some v" "\<not> IsNull v" "\<not> IsUnknown v"
      by blast
    from writableBlockGroups_members [OF bg info(1)]
    have m: "info \<in> set (getInfos r)" "\<not> ReadOnly (attr info)" "tfBlock info = fst bg" "tfBlock info \<noteq> []"
      by auto
    with obj v have "plannedKnown src info"
      by (simp add: plannedKnown_def plannedValue_def)
    with m info(2) show ?thesis by blast
  qed
qed

lemma kaiakName_newAttrInfo [simp]: "kaiakName (newAttrInfo a) = Name a"
  by (simp add: newAttrInfo_def Let_def)

lemma place_by_name:
  "Name x = Name y \<Longrightarrow>
   (tfBlock (newAttrInfo x), tfField (newAttrInfo x)) =
   (tfBlock (newAttrInfo y), tfField (newAttrInfo y))"
  by (simp add: newAttrInfo_def Let_def)

lemma build_names_distinct:
  "distinct (map kaiakName (fst (snd (buildResourceSchema rn attrs))))"
proof (cases "HasError (snd (snd (buildResourceSchema rn attrs)))")
  case True
  then show ?thesis
    by (auto simp: buildResourceSchema_def split: prod.splits if_splits)
next
  case False
  obtain s infos diags where b: "buildResourceSchema rn attrs = (s, infos, diags)"
    by (metis prod_cases3)
  with False have e: "\<not> HasError diags" by simp
  from build_success(1,3) [OF b e]
  have p: "distinct (map (\<lambda>a. (tfBlock (newAttrInfo a), tfField (newAttrInfo a))) attrs)"
    and i: "infos = map newAttrInfo attrs"
    by (simp_all add: comp_def)
  from p have "distinct (map Name attrs)"
    by (rule distinct_map_coarser) (intro allI impI, rule place_by_name)
  with i b show ?thesis by (simp add: comp_def)
qed

text \<open>
  Claim C10. Every key of the state that \<open>extractAttrs\<close> returns is the name of a
  descriptor that is not read-only and whose planned value is known: neither null nor
  unknown, and for a member of a block inside a block object that is itself neither null
  nor unknown. With the cache of the controller empty or holding the translation of its
  own descriptors, no descriptor that is read-only or whose planned value is not known
  has its name among the keys.
\<close>

theorem extraction_only_filters:
  "(\<forall>k\<in>dom (fst (extractAttrs r lib src diags)).
      \<exists>info\<in>set (getInfos r). kaiakName info = k \<and> \<not> ReadOnly (attr info) \<and>
        plannedKnown src info) \<and>
   (r_infos r = [] \<or>
    r_infos r = fst (snd (buildResourceSchema (meta_Name (r_meta r)) (meta_Attributes (r_meta r)))) \<longrightarrow>
      (\<forall>info\<in>set (getInfos r). ReadOnly (attr info) \<or> \<not> plannedKnown src info \<longrightarrow>
         kaiakName info \<notin> dom (fst (extractAttrs r lib src diags))))"
proof (intro conjI ballI impI)
  fix k
  assume "k \<in> dom (fst (extractAttrs r lib src diags))"
  then obtain g where "fst (extractAttrs r lib src diags) k = Some g" by auto
  then show "\<exists>info\<in>set (getInfos r). kaiakName info = k \<and> \<not> ReadOnly (attr info) \<and>
        plannedKnown src info"
    by (rule extractAttrs_new)
next
  fix info
  assume c: "r_infos r = [] \<or>
    r_infos r = fst (snd (buildResourceSchema (meta_Name (r_meta r)) (meta_Attributes (r_meta r))))"
    and i: "info \<in> set (getInfos r)" and o: "ReadOnly (attr info) \<or> \<not> plannedKnown src info"
  from c have "getInfos r =
      fst (snd (buildResourceSchema (meta_Name (r_meta r)) (meta_Attributes (r_meta r))))"
    by (auto simp: getInfos_def)
  then have d: "distinct (map kaiakName (getInfos r))"
    by (simp add: build_names_distinct)
  show "kaiakName info \<notin> dom (fst (extractAttrs r lib src diags))"
  proof
    assume "kaiakName info \<in> dom (fst (extractAttrs r lib src diags))"
    then obtain g where "fst (extractAttrs r lib src diags) (kaiakName info) = Some g" by auto
    from extractAttrs_new [OF this] obtain info' where i': "info' \<in> set (getInfos r)"
      "kaiakName info' = kaiakName info" "\<not> ReadOnly (attr info')" "plannedKnown src info'"
      by blast
    from d i i'(1,2) have "info' = info"
      by (meson distinct_map inj_onD)
    with i' o show False by simp
  qed
qed

lemma tls_getInfos:
  "getInfos tlsResource =
     map newAttrInfo tlsAttrs @
     [\<lparr>kaiakName = ''version'', tfBlock = [], tfField = ''version'',
       attr = descr ''version'' ''string'' False True\<rparr>]"
proof -
  have "collectInfos ''httpserver'' (tlsAttrs @ [descr ''version'' ''string'' False True])
      ([], Map.empty, []) =
      (map newAttrInfo tlsAttrs @
       [\<lparr>kaiakName = ''version'', tfBlock = [], tfField = ''version'',
         attr = descr ''version'' ''string'' False True\<rparr>],
       [''/listen'' \<mapsto> ''listen'', ''tls/cert'' \<mapsto> ''tls.cert'', ''tls/key'' \<mapsto> ''tls.key'',
        ''log/level'' \<mapsto> ''log.level'', ''/version'' \<mapsto> ''version''], [])"
    unfolding tls_infos
    by (simp add: tlsAttrs_def newAttrInfo_def SplitN2_def ReplaceAll_def seenKey_def reserved_def)
  then show ?thesis
    by (simp add: getInfos_def tlsResource_def buildResourceSchema_def case_prod_beta)
qed

lemma tls_extract:
  "fst (extractAttrs tlsResource stubLib tlsPlan []) =
     [''listen'' \<mapsto> DString '':9090'', ''tls.cert'' \<mapsto> DString ''c'']"
  by (simp add: extractAttrs_def tls_getInfos tls_infos extractSingleAttr_def extractBlockAttr_def
        GetAttribute_def tlsPlan_def known_def HasPrefix_def groupOf_def)

theorem extraction_only_filters_witness:
  "''listen'' \<in> dom (fst (extractAttrs tlsResource stubLib tlsPlan [])) \<and>
   (\<exists>info\<in>set (getInfos tlsResource). kaiakName info = ''listen'' \<and> \<not> ReadOnly (attr info) \<and>
      plannedKnown tlsPlan info) \<and>
   ''version'' \<notin> dom (fst (extractAttrs tlsResource stubLib tlsPlan [])) \<and>
   ''tls.key'' \<notin> dom (fst (extractAttrs tlsResource stubLib tlsPlan [])) \<and>
   ''log.level'' \<notin> dom (fst (extractAttrs tlsResource stubLib tlsPlan []))"
proof -
  note th = extraction_only_filters [of tlsResource stubLib tlsPlan "[]"]
  have l: "''listen'' \<in> dom (fst (extractAttrs tlsResource stubLib tlsPlan []))"
    by (simp add: tls_extract)
  have c: "r_infos tlsResource = []"
    by (simp add: tlsResource_def)
  let ?v = "\<lparr>kaiakName = ''version'', tfBlock = [], tfField = ''version'',
       attr = descr ''version'' ''string'' False True\<rparr>"
  let ?k = "\<lparr>kaiakName = ''tls.key'', tfBlock = ''tls'', tfField = ''key'',
       attr = descr ''tls.key'' ''string'' False False\<rparr>"
  let ?g = "\<lparr>kaiakName = ''log.level'', tfBlock = ''log'', tfField = ''level'',
       attr = descr ''log.level'' ''string'' False False\<rparr>"
  have m: "?v \<in> set (getInfos tlsResource)" "?k \<in> set (getInfos tlsResource)"
    "?g \<in> set (getInfos tlsResource)"
    by (simp_all add: tls_getInfos tls_infos)
  have o: "ReadOnly (attr ?v)" "\<not> plannedKnown tlsPlan ?k" "\<not> plannedKnown tlsPlan ?g"
    by (simp_all add: plannedKnown_def plannedValue_def tlsPlan_def)
  from th l have "\<exists>info\<in>set (getInfos tlsResource). kaiakName info = ''listen'' \<and>
      \<not> ReadOnly (attr info) \<and> plannedKnown tlsPlan info"
    by blast
  moreover from th c m(1) o(1)
  have "kaiakName ?v \<notin> dom (fst (extractAttrs tlsResource stubLib tlsPlan []))"
    by blast
  moreover from th c m(2) o(2)
  have "kaiakName ?k \<notin> dom (fst (extractAttrs tlsResource stubLib tlsPlan []))"
    by blast
  moreover from th c m(3) o(3)
  have "kaiakName ?g \<notin> dom (fst (extractAttrs tlsResource stubLib tlsPlan []))"
    by blast
  ultimately show ?thesis using l by simp
qed

lemma getInfos_cached: "getInfos (r\<lparr>r_infos := getInfos r\<rparr>) = getInfos r"
  by (simp add: getInfos_def)

section \<open>Create, read-back and import: properties\<close>

text \<open>
  Claim C8. In \<open>Create\<close>, when the instance was created, the attributes were extracted
  without error and are not empty, and the update that applies them fails, the instance
  is destroyed (not forced): the server ends in the state that this destroy leaves. The
  diagnostics gain the error \<open>Failed to apply attributes\<close> with the message of the
  update; when the destroy failed as well, and only then, they gain before it the warning
  \<open>Cleanup failed\<close>, whose detail names the instance and gives the message of the
  destroy. The framework state is not written.
\<close>

theorem create_apply_failure_compensation:
  assumes "r_client r = Some c"
    and "name = fullName r (generateLabel rnd)"
    and "CreateResourceInstance c name srv = (None, srv1)"
    and "extractAttrs r lib plan diags = (attrs, diags1)"
    and "\<not> HasError diags1"
    and "attrs \<noteq> Map.empty"
    and "UpdateResourceInstance c name attrs True srv1 = (Some err, srv2)"
    and "DestroyResourceInstance c name False srv2 = (cleanup, srv3)"
  shows "Create r lib rnd plan (tfState, diags) srv =
    ((tfState,
      Append diags1
        ((case cleanup of
            None \<Rightarrow> []
          | Some cleanupErr \<Rightarrow>
              [WarningDiag ''Cleanup failed''
                 (Sprintf ''Instance %s was created but applying attributes failed. Attempted to destroy the instance but cleanup also failed: %s. The instance may need manual removal.''
                    [name, cleanupErr])]) @
         [ErrorDiag ''Failed to apply attributes'' (Text err)])),
     srv3)"
  using assms by (simp add: Create_def Let_def cleanupWarning_def split: option.splits)

theorem create_apply_failure_witness:
  "Create (demoResource (Some (demoClient True))) stubLib [0xde, 0xad, 0xbe, 0xef] demoPlan
     (emptyState (demoResource None), []) [] =
     ((emptyState (demoResource None),
       [WarningDiag ''Cleanup failed''
          (Sprintf ''Instance %s was created but applying attributes failed. Attempted to destroy the instance but cleanup also failed: %s. The instance may need manual removal.''
             [''httpserver.tf_deadbeef'', ''destroy rejected'']),
        ErrorDiag ''Failed to apply attributes'' (Text ''update rejected'')]),
      [''httpserver.tf_deadbeef'']) \<and>
   Create (demoResource (Some (demoClient False))) stubLib [0xde, 0xad, 0xbe, 0xef] demoPlan
     (emptyState (demoResource None), []) [] =
     ((emptyState (demoResource None),
       [ErrorDiag ''Failed to apply attributes'' (Text ''update rejected'')]), [])"
proof -
  have n: "fullName (demoResource c) (generateLabel [0xde, 0xad, 0xbe, 0xef]) =
      ''httpserver.tf_deadbeef''" for c
    by (simp add: demo_label fullName_def demoResource_def)
  have ne: "[''listen'' \<mapsto> DString '':9090''] \<noteq> (Map.empty :: real State)"
    by simp
  have nerr: "\<not> HasError []"
    by simp
  have cl: "r_client (demoResource (Some c)) = Some c" for c
    by (simp add: demoResource_def)
  have cr: "CreateResourceInstance (demoClient b) nm [] = (None, [nm])" for b nm
    by (simp add: demoClient_def)
  have up: "UpdateResourceInstance (demoClient b) nm attrs True srv =
      (Some ''update rejected'', srv)" for b nm attrs srv
    by (simp add: demoClient_def)
  have d1: "DestroyResourceInstance (demoClient True) nm False [nm] =
      (Some ''destroy rejected'', [nm])" for nm
    by (simp add: demoClient_def)
  have d2: "DestroyResourceInstance (demoClient False) nm False [nm] = (None, [])" for nm
    by (simp add: demoClient_def)
  show ?thesis
    using create_apply_failure_compensation [OF cl n [symmetric] cr demo_extract nerr ne up d1, of "emptyState (demoResource None)"]
      create_apply_failure_compensation [OF cl n [symmetric] cr demo_extract nerr ne up d2, of "emptyState (demoResource None)"]
    by (simp add: addDiag_def)
qed

lemma groupAttrs_top_unchanged:
  "\<forall>i\<in>set infos. tfBlock i = [] \<longrightarrow> tfField i \<noteq> k \<Longrightarrow>
   fst (groupAttrs infos (tfAttrs, blocks)) k = tfAttrs k"
proof (induction infos arbitrary: tfAttrs blocks)
  case Nil
  show ?case by simp
next
  case (Cons info infos)
  then have IH: "fst (groupAttrs infos (tA, bl)) k = tA k" for tA bl
    by simp
  show ?case
  proof (cases "tfBlock info = []")
    case True
    with Cons.prems have "tfField info \<noteq> k" by simp
    with True show ?thesis by (simp add: Let_def IH)
  next
    case False
    then show ?thesis by (simp add: Let_def IH)
  qed
qed

lemma build_no_reserved:
  assumes "buildResourceSchema rn attrs = (s, infos, diags)" and "\<not> HasError diags"
    and "a \<in> set attrs" and "tfBlock (newAttrInfo a) = []"
  shows "\<not> reserved (tfField (newAttrInfo a))"
proof
  assume "reserved (tfField (newAttrInfo a))"
  with assms(3,4) have "\<exists>a\<in>set attrs.
      (tfBlock (newAttrInfo a) = [] \<and> reserved (tfField (newAttrInfo a))) \<or>
      Map.empty (seenKey (newAttrInfo a)) \<noteq> None"
    by blast
  then have "HasError (snd (snd (collectInfos rn attrs ([], Map.empty, []))))"
    by (rule collectInfos_rejects)
  with assms(1,2) show False
    by (auto simp: buildResourceSchema_def split: prod.splits if_splits)
qed

lemma build_fixed:
  assumes b: "buildResourceSchema rn attrs = (s, infos, diags)" and e: "\<not> HasError diags"
    and k: "k = ''id'' \<or> k = ''name''"
    and nb: "\<forall>a\<in>set attrs. tfBlock (newAttrInfo a) \<noteq> k"
  shows "Attributes s k = fixedAttrs k"
proof -
  from build_attributes [OF b e] obtain tfAttrs blocks where
    g: "groupAttrs (map newAttrInfo attrs) (fixedAttrs, []) = (tfAttrs, blocks)"
    and A: "\<And>b. Attributes s b =
         (if b \<noteq> [] \<and> b \<in> (\<lambda>a. tfBlock (newAttrInfo a)) ` set attrs
          then Some (nestedBlock (blockOf blocks b)) else tfAttrs b)"
    by blast
  from nb have "k \<notin> (\<lambda>a. tfBlock (newAttrInfo a)) ` set attrs" by auto
  then have "Attributes s k = tfAttrs k" by (simp add: A)
  also have "tfAttrs k = fst (groupAttrs (map newAttrInfo attrs) (fixedAttrs, [])) k"
    by (simp add: g)
  also have "\<dots> = fixedAttrs k"
  proof (rule groupAttrs_top_unchanged, intro ballI impI)
    fix i
    assume "i \<in> set (map newAttrInfo attrs)" and t: "tfBlock i = []"
    then obtain a where a: "a \<in> set attrs" "i = newAttrInfo a" by auto
    with build_no_reserved [OF b e a(1)] t have "\<not> reserved (tfField i)" by simp
    with k show "tfField i \<noteq> k" by (auto simp: reserved_def)
  qed
  finally show ?thesis .
qed

lemma sameType_String [simp]:
  "sameType StringType t = (t = StringType)" "sameType t StringType = (t = StringType)"
  by (auto simp: sameType_def split: attr_type.splits)

text \<open>
  The outcomes of \<open>ImportState\<close>. An import ID is well formed when it is \<open>ty.lb\<close>
  with \<open>ty\<close> and \<open>lb\<close> not empty, \<open>ty\<close> being the part before the first dot.
\<close>

lemma ImportState_outcomes:
  "(\<not> (\<exists>ty lb. reqID = ty @ ''.'' @ lb \<and> CHR ''.'' \<notin> set ty \<and> ty \<noteq> [] \<and> lb \<noteq> []) \<longrightarrow>
      ImportState r reqID (st, diags) =
        (st, Append diags
           [ErrorDiag ''Invalid import ID''
              (Sprintf ''Expected format \"resource_type.label\" (e.g. \"httpstatic.docs\"), got %q''
                 [reqID])])) \<and>
   (reqID = ty @ ''.'' @ lb \<and> CHR ''.'' \<notin> set ty \<and> ty \<noteq> [] \<and> lb \<noteq> [] \<longrightarrow>
      (ty \<noteq> meta_Name (r_meta r) \<longrightarrow>
         ImportState r reqID (st, diags) =
           (st, Append diags
              [ErrorDiag ''Resource type mismatch''
                 (Sprintf ''Import ID %q has resource type %q, but this resource block is kaiak_%s. Use the matching resource type or correct the import ID.''
                    [reqID, ty, meta_Name (r_meta r)])])) \<and>
      (ty = meta_Name (r_meta r) \<longrightarrow>
         (map_option attrTypeOf (Attributes (st_Schema st) ''id'') = Some StringType \<and>
          map_option attrTypeOf (Attributes (st_Schema st) ''name'') = Some StringType \<longrightarrow>
            ImportState r reqID (st, diags) =
              (st\<lparr>st_Raw := (st_Raw st)(''id'' \<mapsto> StringValue reqID,
                                        ''name'' \<mapsto> StringValue lb)\<rparr>,
               diags)) \<and>
         (\<not> (map_option attrTypeOf (Attributes (st_Schema st) ''id'') = Some StringType \<and>
             map_option attrTypeOf (Attributes (st_Schema st) ''name'') = Some StringType) \<longrightarrow>
            HasError (snd (ImportState r reqID (st, diags)))) \<and>
         (st_Schema st =
            fst (buildResourceSchema (meta_Name (r_meta r)) (meta_Attributes (r_meta r))) \<and>
          \<not> HasError
              (snd (snd (buildResourceSchema (meta_Name (r_meta r))
                           (meta_Attributes (r_meta r))))) \<and>
          (\<forall>a\<in>set (meta_Attributes (r_meta r)).
              tfBlock (newAttrInfo a) \<noteq> ''id'' \<and> tfBlock (newAttrInfo a) \<noteq> ''name'') \<longrightarrow>
            ImportState r reqID (st, diags) =
              (st\<lparr>st_Raw := (st_Raw st)(''id'' \<mapsto> StringValue reqID,
                                        ''name'' \<mapsto> StringValue lb)\<rparr>,
               diags))))"
proof (intro conjI impI)
  assume bad: "\<not> (\<exists>ty lb. reqID = ty @ ''.'' @ lb \<and> CHR ''.'' \<notin> set ty \<and> ty \<noteq> [] \<and>
      lb \<noteq> [])"
  consider (none) "SplitN2 reqID CHR ''.'' = [reqID]"
    | (split) a b where "reqID = a @ CHR ''.'' # b" "CHR ''.'' \<notin> set a"
        "SplitN2 reqID CHR ''.'' = [a, b]"
    using SplitN2_cases [of "CHR ''.''" reqID] by blast
  then show "ImportState r reqID (st, diags) =
        (st, Append diags
           [ErrorDiag ''Invalid import ID''
              (Sprintf ''Expected format \"resource_type.label\" (e.g. \"httpstatic.docs\"), got %q''
                 [reqID])])"
  proof cases
    case none
    then show ?thesis by (simp add: ImportState_def importFormatError_def)
  next
    case (split a b)
    with bad have "a = [] \<or> b = []" by auto
    with split(3) show ?thesis by (auto simp: ImportState_def importFormatError_def)
  qed
next
  assume form: "reqID = ty @ ''.'' @ lb \<and> CHR ''.'' \<notin> set ty \<and> ty \<noteq> [] \<and> lb \<noteq> []"
    and "ty \<noteq> meta_Name (r_meta r)"
  then have "SplitN2 reqID CHR ''.'' = [ty, lb]"
    using SplitN2_first_sep [of "CHR ''.''" ty lb] by simp
  with form \<open>ty \<noteq> meta_Name (r_meta r)\<close>
  show "ImportState r reqID (st, diags) =
           (st, Append diags
              [ErrorDiag ''Resource type mismatch''
                 (Sprintf ''Import ID %q has resource type %q, but this resource block is kaiak_%s. Use the matching resource type or correct the import ID.''
                    [reqID, ty, meta_Name (r_meta r)])])"
    by (simp add: ImportState_def importTypeMismatch_def)
next
  assume form: "reqID = ty @ ''.'' @ lb \<and> CHR ''.'' \<notin> set ty \<and> ty \<noteq> [] \<and> lb \<noteq> []"
    and ty: "ty = meta_Name (r_meta r)"
  then have sp: "SplitN2 reqID CHR ''.'' = [ty, lb]"
    using SplitN2_first_sep [of "CHR ''.''" ty lb] by simp
  have run: "ImportState r reqID (st, diags) =
      setAttr (setAttr (st, diags) ''id'' (StringValue reqID)) ''name'' (StringValue lb)"
    using form ty sp by (simp add: ImportState_def)
  have ok: "ImportState r reqID (st, diags) =
      (st\<lparr>st_Raw := (st_Raw st)(''id'' \<mapsto> StringValue reqID, ''name'' \<mapsto> StringValue lb)\<rparr>,
       diags)"
    if "map_option attrTypeOf (Attributes (st_Schema st) ''id'') = Some StringType"
      and "map_option attrTypeOf (Attributes (st_Schema st) ''name'') = Some StringType"
    using that unfolding run by (auto simp: setAttr_def SetAttribute_def)
  { assume "map_option attrTypeOf (Attributes (st_Schema st) ''id'') = Some StringType \<and>
          map_option attrTypeOf (Attributes (st_Schema st) ''name'') = Some StringType"
    then show "ImportState r reqID (st, diags) =
      (st\<lparr>st_Raw := (st_Raw st)(''id'' \<mapsto> StringValue reqID, ''name'' \<mapsto> StringValue lb)\<rparr>,
       diags)"
      using ok by blast }
  { assume "\<not> (map_option attrTypeOf (Attributes (st_Schema st) ''id'') = Some StringType \<and>
          map_option attrTypeOf (Attributes (st_Schema st) ''name'') = Some StringType)"
    then show "HasError (snd (ImportState r reqID (st, diags)))"
      unfolding run
      by (auto simp: setAttr_def SetAttribute_def split: option.splits if_splits) }
  { assume h: "st_Schema st =
            fst (buildResourceSchema (meta_Name (r_meta r)) (meta_Attributes (r_meta r))) \<and>
          \<not> HasError
              (snd (snd (buildResourceSchema (meta_Name (r_meta r))
                           (meta_Attributes (r_meta r))))) \<and>
          (\<forall>a\<in>set (meta_Attributes (r_meta r)).
              tfBlock (newAttrInfo a) \<noteq> ''id'' \<and> tfBlock (newAttrInfo a) \<noteq> ''name'')"
    obtain s infos ds where b:
      "buildResourceSchema (meta_Name (r_meta r)) (meta_Attributes (r_meta r)) = (s, infos, ds)"
      by (metis prod_cases3)
    with h have e: "\<not> HasError ds" and s: "st_Schema st = s" by simp_all
    from h have "Attributes s ''id'' = fixedAttrs ''id''" "Attributes s ''name'' = fixedAttrs ''name''"
      by (auto intro!: build_fixed [OF b e])
    then have "map_option attrTypeOf (Attributes (st_Schema st) ''id'') = Some StringType"
      "map_option attrTypeOf (Attributes (st_Schema st) ''name'') = Some StringType"
      by (simp_all add: s fixedAttrs_def)
    then show "ImportState r reqID (st, diags) =
      (st\<lparr>st_Raw := (st_Raw st)(''id'' \<mapsto> StringValue reqID, ''name'' \<mapsto> StringValue lb)\<rparr>,
       diags)"
      by (rule ok) }
qed

text \<open>
  Claim C7. \<open>ImportState\<close> answers every ID that is not well formed with the error
  \<open>Invalid import ID\<close> and a well-formed ID of another resource type with the error
  \<open>Resource type mismatch\<close>, and leaves the state as it was in both cases. For a
  well-formed ID of its own resource type it writes \<open>id\<close> and \<open>name\<close>: when the schema
  of the state has string attributes at both, which it has when it is the translation of
  the controller's descriptors and no block is named \<open>id\<close> or \<open>name\<close>, the state gains
  the ID at \<open>id\<close> and the label at \<open>name\<close>, nothing else, and no diagnostic; otherwise
  there is an error. So whenever the import ends without error, the ID is the resource
  type, a dot and a label, and exactly \<open>id\<close> and \<open>name\<close> were written.
\<close>

theorem import_state_checks:
  "(\<not> (\<exists>ty lb. reqID = ty @ ''.'' @ lb \<and> CHR ''.'' \<notin> set ty \<and> ty \<noteq> [] \<and> lb \<noteq> []) \<longrightarrow>
      ImportState r reqID (st, diags) =
        (st, Append diags
           [ErrorDiag ''Invalid import ID''
              (Sprintf ''Expected format \"resource_type.label\" (e.g. \"httpstatic.docs\"), got %q''
                 [reqID])])) \<and>
   (reqID = ty @ ''.'' @ lb \<and> CHR ''.'' \<notin> set ty \<and> ty \<noteq> [] \<and> lb \<noteq> [] \<longrightarrow>
      (ty \<noteq> meta_Name (r_meta r) \<longrightarrow>
         ImportState r reqID (st, diags) =
           (st, Append diags
              [ErrorDiag ''Resource type mismatch''
                 (Sprintf ''Import ID %q has resource type %q, but this resource block is kaiak_%s. Use the matching resource type or correct the import ID.''
                    [reqID, ty, meta_Name (r_meta r)])])) \<and>
      (ty = meta_Name (r_meta r) \<longrightarrow>
         (map_option attrTypeOf (Attributes (st_Schema st) ''id'') = Some StringType \<and>
          map_option attrTypeOf (Attributes (st_Schema st) ''name'') = Some StringType \<longrightarrow>
            ImportState r reqID (st, diags) =
              (st\<lparr>st_Raw := (st_Raw st)(''id'' \<mapsto> StringValue reqID,
                                        ''name'' \<mapsto> StringValue lb)\<rparr>,
               diags)) \<and>
         (\<not> (map_option attrTypeOf (Attributes (st_Schema st) ''id'') = Some StringType \<and>
             map_option attrTypeOf (Attributes (st_Schema st) ''name'') = Some StringType) \<longrightarrow>
            HasError (snd (ImportState r reqID (st, diags)))) \<and>
         (st_Schema st =
            fst (buildResourceSchema (meta_Name (r_meta r)) (meta_Attributes (r_meta r))) \<and>
          \<not> HasError
              (snd (snd (buildResourceSchema (meta_Name (r_meta r))
                           (meta_Attributes (r_meta r))))) \<and>
          (\<forall>a\<in>set (meta_Attributes (r_meta r)).
              tfBlock (newAttrInfo a) \<noteq> ''id'' \<and> tfBlock (newAttrInfo a) \<noteq> ''name'') \<longrightarrow>
            ImportState r reqID (st, diags) =
              (st\<lparr>st_Raw := (st_Raw st)(''id'' \<mapsto> StringValue reqID,
                                        ''name'' \<mapsto> StringValue lb)\<rparr>,
               diags)))) \<and>
   (\<not> HasError diags \<and> \<not> HasError (snd (ImportState r reqID (st, diags))) \<longrightarrow>
      (\<exists>label. label \<noteq> [] \<and> reqID = meta_Name (r_meta r) @ ''.'' @ label \<and>
         ImportState r reqID (st, diags) =
           (st\<lparr>st_Raw := (st_Raw st)(''id'' \<mapsto> StringValue reqID,
                                     ''name'' \<mapsto> StringValue label)\<rparr>,
            diags)))"
proof (intro conjI)
  note o = ImportState_outcomes [where r = r and reqID = reqID and st = st and diags = diags]
  from o [where ty = ty and lb = lb]
  show "\<not> (\<exists>ty lb. reqID = ty @ ''.'' @ lb \<and> CHR ''.'' \<notin> set ty \<and> ty \<noteq> [] \<and> lb \<noteq> []) \<longrightarrow>
      ImportState r reqID (st, diags) =
        (st, Append diags
           [ErrorDiag ''Invalid import ID''
              (Sprintf ''Expected format \"resource_type.label\" (e.g. \"httpstatic.docs\"), got %q''
                 [reqID])])"
    by (rule conjunct1)
  from o [where ty = ty and lb = lb]
  show "reqID = ty @ ''.'' @ lb \<and> CHR ''.'' \<notin> set ty \<and> ty \<noteq> [] \<and> lb \<noteq> [] \<longrightarrow>
      (ty \<noteq> meta_Name (r_meta r) \<longrightarrow>
         ImportState r reqID (st, diags) =
           (st, Append diags
              [ErrorDiag ''Resource type mismatch''
                 (Sprintf ''Import ID %q has resource type %q, but this resource block is kaiak_%s. Use the matching resource type or correct the import ID.''
                    [reqID, ty, meta_Name (r_meta r)])])) \<and>
      (ty = meta_Name (r_meta r) \<longrightarrow>
         (map_option attrTypeOf (Attributes (st_Schema st) ''id'') = Some StringType \<and>
          map_option attrTypeOf (Attributes (st_Schema st) ''name'') = Some StringType \<longrightarrow>
            ImportState r reqID (st, diags) =
              (st\<lparr>st_Raw := (st_Raw st)(''id'' \<mapsto> StringValue reqID,
                                        ''name'' \<mapsto> StringValue lb)\<rparr>,
               diags)) \<and>
         (\<not> (map_option attrTypeOf (Attributes (st_Schema st) ''id'') = Some StringType \<and>
             map_option attrTypeOf (Attributes (st_Schema st) ''name'') = Some StringType) \<longrightarrow>
            HasError (snd (ImportState r reqID (st, diags)))) \<and>
         (st_Schema st =
            fst (buildResourceSchema (meta_Name (r_meta r)) (meta_Attributes (r_meta r))) \<and>
          \<not> HasError
              (snd (snd (buildResourceSchema (meta_Name (r_meta r))
                           (meta_Attributes (r_meta r))))) \<and>
          (\<forall>a\<in>set (meta_Attributes (r_meta r)).
              tfBlock (newAttrInfo a) \<noteq> ''id'' \<and> tfBlock (newAttrInfo a) \<noteq> ''name'') \<longrightarrow>
            ImportState r reqID (st, diags) =
              (st\<lparr>st_Raw := (st_Raw st)(''id'' \<mapsto> StringValue reqID,
                                        ''name'' \<mapsto> StringValue lb)\<rparr>,
               diags)))"
    by (rule conjunct2)
  show "\<not> HasError diags \<and> \<not> HasError (snd (ImportState r reqID (st, diags))) \<longrightarrow>
      (\<exists>label. label \<noteq> [] \<and> reqID = meta_Name (r_meta r) @ ''.'' @ label \<and>
         ImportState r reqID (st, diags) =
           (st\<lparr>st_Raw := (st_Raw st)(''id'' \<mapsto> StringValue reqID,
                                     ''name'' \<mapsto> StringValue label)\<rparr>,
            diags))"
  proof
    assume ok: "\<not> HasError diags \<and> \<not> HasError (snd (ImportState r reqID (st, diags)))"
    have wf: "\<exists>ty lb. reqID = ty @ ''.'' @ lb \<and> CHR ''.'' \<notin> set ty \<and> ty \<noteq> [] \<and> lb \<noteq> []"
    proof (rule ccontr)
      assume "\<not> (\<exists>ty lb. reqID = ty @ ''.'' @ lb \<and> CHR ''.'' \<notin> set ty \<and> ty \<noteq> [] \<and>
        lb \<noteq> [])"
      with o have "HasError (snd (ImportState r reqID (st, diags)))" by simp
      with ok show False by simp
    qed
    then obtain t l where form: "reqID = t @ ''.'' @ l \<and> CHR ''.'' \<notin> set t \<and> t \<noteq> [] \<and>
        l \<noteq> []"
      by blast
    note p = o [where ty = t and lb = l, THEN conjunct2, THEN mp, OF form]
    have t: "t = meta_Name (r_meta r)"
    proof (rule ccontr)
      assume "t \<noteq> meta_Name (r_meta r)"
      with p have "HasError (snd (ImportState r reqID (st, diags)))" by simp
      with ok show False by simp
    qed
    have "map_option attrTypeOf (Attributes (st_Schema st) ''id'') = Some StringType \<and>
        map_option attrTypeOf (Attributes (st_Schema st) ''name'') = Some StringType"
      using p t ok by blast
    with p t have "ImportState r reqID (st, diags) =
        (st\<lparr>st_Raw := (st_Raw st)(''id'' \<mapsto> StringValue reqID, ''name'' \<mapsto> StringValue l)\<rparr>,
         diags)"
      by blast
    with form t show "\<exists>label. label \<noteq> [] \<and> reqID = meta_Name (r_meta r) @ ''.'' @ label \<and>
         ImportState r reqID (st, diags) =
           (st\<lparr>st_Raw := (st_Raw st)(''id'' \<mapsto> StringValue reqID,
                                     ''name'' \<mapsto> StringValue label)\<rparr>,
            diags)"
      by blast
  qed
qed

lemma demo_schema:
  "map_option attrTypeOf (Attributes (st_Schema (emptyState (demoResource c))) ''id'') =
     Some StringType"
  "map_option attrTypeOf (Attributes (st_Schema (emptyState (demoResource c))) ''name'') =
     Some StringType"
  by (simp_all add: emptyState_def demoResource_def buildResourceSchema_def newAttrInfo_plain
        reserved_def seenKey_def fixedAttrs_def)

lemma nameBlock_schema:
  "map_option attrTypeOf
     (Attributes (st_Schema (emptyState (nameBlockResource :: ('s, 'f) dynamicResource))) ''name'') =
     Some (ObjectType [(''x'', StringType)])"
proof -
  have i: "newAttrInfo (descr ''name.x'' ''string'' False False) =
      \<lparr>kaiakName = ''name.x'', tfBlock = ''name'', tfField = ''x'',
       attr = descr ''name.x'' ''string'' False False\<rparr>"
    by (simp add: newAttrInfo_def SplitN2_def ReplaceAll_def)
  show ?thesis
    by (simp add: emptyState_def nameBlockResource_def buildResourceSchema_def i
        reserved_def seenKey_def blockOf_def nestedBlock_def kaiakAttrToTF_def HasPrefix_def
        Let_def)
qed

theorem import_state_checks_witness:
  "ImportState (demoResource None) ''badid'' (emptyState (demoResource None), []) =
     (emptyState (demoResource None),
      [ErrorDiag ''Invalid import ID''
         (Sprintf ''Expected format \"resource_type.label\" (e.g. \"httpstatic.docs\"), got %q''
            [''badid''])]) \<and>
   ImportState (demoResource None) ''httpstatic.docs'' (emptyState (demoResource None), []) =
     (emptyState (demoResource None),
      [ErrorDiag ''Resource type mismatch''
         (Sprintf ''Import ID %q has resource type %q, but this resource block is kaiak_%s. Use the matching resource type or correct the import ID.''
            [''httpstatic.docs'', ''httpstatic'', ''httpserver''])]) \<and>
   ImportState (demoResource None) ''httpserver.main'' (emptyState (demoResource None), []) =
     (emptyState (demoResource None)
        \<lparr>st_Raw := [''id'' \<mapsto> StringValue ''httpserver.main'',
                    ''name'' \<mapsto> StringValue ''main'']\<rparr>, []) \<and>
   HasError (snd (ImportState nameBlockResource ''httpserver.main''
                    (emptyState nameBlockResource, [])))"
proof -
  have bad: "\<not> (\<exists>ty lb. ''badid'' = ty @ ''.'' @ lb \<and> CHR ''.'' \<notin> set ty \<and> ty \<noteq> [] \<and> lb \<noteq> [])"
  proof
    assume "\<exists>ty lb. ''badid'' = ty @ ''.'' @ lb \<and> CHR ''.'' \<notin> set ty \<and> ty \<noteq> [] \<and> lb \<noteq> []"
    then obtain ty lb where "''badid'' = ty @ ''.'' @ lb" by blast
    then have "CHR ''.'' \<in> set ''badid''"
      by (metis append_Cons in_set_conv_decomp)
    then show False by simp
  qed
  have raw: "st_Raw (emptyState r) = Map.empty" for r :: "('s, real) dynamicResource"
    by (simp add: emptyState_def)
  have nm: "meta_Name (r_meta (demoResource None)) = ''httpserver''"
    "meta_Name (r_meta nameBlockResource) = ''httpserver''"
    by (simp_all add: demoResource_def nameBlockResource_def)
  have nb: "\<not> (map_option attrTypeOf
        (Attributes (st_Schema (emptyState nameBlockResource)) ''id'') = Some StringType \<and>
      map_option attrTypeOf
        (Attributes (st_Schema (emptyState nameBlockResource)) ''name'') = Some StringType)"
    by (simp add: nameBlock_schema)
  have form2: "''httpstatic.docs'' = ''httpstatic'' @ ''.'' @ ''docs'' \<and>
      CHR ''.'' \<notin> set ''httpstatic'' \<and> ''httpstatic'' \<noteq> [] \<and> ''docs'' \<noteq> []"
    by simp
  have form3: "''httpserver.main'' = ''httpserver'' @ ''.'' @ ''main'' \<and>
      CHR ''.'' \<notin> set ''httpserver'' \<and> ''httpserver'' \<noteq> [] \<and> ''main'' \<noteq> []"
    by simp
  have ne: "''httpstatic'' \<noteq> meta_Name (r_meta (demoResource None))"
    by (simp add: nm)
  have eq: "''httpserver'' = meta_Name (r_meta (demoResource None))"
    "''httpserver'' = meta_Name (r_meta nameBlockResource)"
    by (simp_all add: nm)
  note f1 = import_state_checks [where reqID = "''badid''" and r = "demoResource None"
        and st = "emptyState (demoResource None)" and diags = "[]",
      THEN conjunct1, THEN mp, OF bad]
  note f2 = import_state_checks [where reqID = "''httpstatic.docs''" and ty = "''httpstatic''"
        and lb = "''docs''" and r = "demoResource None"
        and st = "emptyState (demoResource None)" and diags = "[]",
      THEN conjunct2, THEN conjunct1, THEN mp, OF form2, THEN conjunct1, THEN mp, OF ne]
  note f3 = import_state_checks [where reqID = "''httpserver.main''" and ty = "''httpserver''"
        and lb = "''main''" and r = "demoResource None"
        and st = "emptyState (demoResource None)" and diags = "[]",
      THEN conjunct2, THEN conjunct1, THEN mp, OF form3, THEN conjunct2, THEN mp, OF eq(1),
      THEN conjunct1, THEN mp, OF conjI [OF demo_schema]]
  note f4 = import_state_checks [where reqID = "''httpserver.main''" and ty = "''httpserver''"
        and lb = "''main''" and r = "nameBlockResource"
        and st = "emptyState nameBlockResource" and diags = "[]",
      THEN conjunct2, THEN conjunct1, THEN mp, OF form3, THEN conjunct2, THEN mp, OF eq(2),
      THEN conjunct2, THEN conjunct1, THEN mp, OF nb]
  from f1 f2 f3 f4 show ?thesis
    by (simp add: nm raw addDiag_def)
qed

text \<open>
  Claim C1, which the code breaks for integer attributes. The claim is that after the
  read-back of Create and Update an attribute that is not read-only and is absent from
  the server's state has its planned value. The merge of \<open>writeState\<close> does give it the
  planned value, but the planned value of an \<open>int\<close> attribute is an \<open>int64\<close>, which
  \<open>kaiakValueToTF\<close> renders as a string, and the write of a string at an integer
  attribute fails. For a resource type with a float attribute \<open>a\<close> and an integer
  attribute \<open>b\<close>, a server that reports \<open>a\<close> only and planned values for both, the
  merged map holds the planned \<open>b\<close>, yet \<open>writeState\<close> writes \<open>id\<close> and \<open>a\<close> only and
  reports a conversion error at \<open>b\<close>.
\<close>

theorem backfilled_int_not_written:
  assumes "GetResourceInstance c name srv = (Inr [''a'' \<mapsto> DFloat64 x], srv')"
  shows "mergeState (getInfos (intResource cl)) [''a'' \<mapsto> DFloat64 x]
       (Some [''a'' \<mapsto> DFloat64 y, ''b'' \<mapsto> DInt64 n]) =
       [''a'' \<mapsto> DFloat64 x, ''b'' \<mapsto> DInt64 n] \<and>
     writeState (intResource cl) c lib name (emptyState (intResource cl), [])
       (Some [''a'' \<mapsto> DFloat64 y, ''b'' \<mapsto> DInt64 n]) srv =
       ((emptyState (intResource cl)
           \<lparr>st_Raw := [''id'' \<mapsto> StringValue name, ''a'' \<mapsto> Float64Value x]\<rparr>,
         [ErrorDiag ''Value Conversion Error'' (Text ''b'')]),
        srv')"
proof -
  have infos: "getInfos (intResource cl) =
      [\<lparr>kaiakName = ''a'', tfBlock = [], tfField = ''a'', attr = descr ''a'' ''float'' False False\<rparr>,
       \<lparr>kaiakName = ''b'', tfBlock = [], tfField = ''b'', attr = descr ''b'' ''int'' False False\<rparr>]"
    by (simp add: getInfos_def intResource_def buildResourceSchema_def newAttrInfo_plain
        reserved_def seenKey_def)
  have merged: "mergeState (getInfos (intResource cl)) [''a'' \<mapsto> DFloat64 x]
       (Some [''a'' \<mapsto> DFloat64 y, ''b'' \<mapsto> DInt64 n]) =
       [''a'' \<mapsto> DFloat64 x, ''b'' \<mapsto> DInt64 n]"
    by (rule ext) (simp add: mergeState_lookup infos)
  have sch: "Attributes (st_Schema (emptyState (intResource cl))) =
      fixedAttrs(''a'' \<mapsto> kaiakAttrToTF (descr ''a'' ''float'' False False),
                 ''b'' \<mapsto> kaiakAttrToTF (descr ''b'' ''int'' False False))"
    by (simp add: emptyState_def intResource_def buildResourceSchema_def newAttrInfo_plain
        reserved_def seenKey_def)
  have ty: "attrTypeOf (kaiakAttrToTF (descr ''a'' ''float'' False False)) = Float64Type"
    "attrTypeOf (kaiakAttrToTF (descr ''b'' ''int'' False False)) = Int64Type"
    "map_option attrTypeOf (fixedAttrs ''id'') = Some StringType"
    by (simp_all add: kaiakAttrToTF_def fixedAttrs_def)
  have dec: "kaiakValueToTF lib (DFloat64 x) ''float'' = Float64Value x"
    "kaiakValueToTF lib (DInt64 n) ''int'' = StringValue (sprint lib (DInt64 n))"
    by (simp_all add: kaiakValueToTF.simps coerceToString_def)
  have raw: "st_Raw (emptyState (intResource cl)) = Map.empty"
    by (simp add: emptyState_def)
  have "writeState (intResource cl) c lib name (emptyState (intResource cl), [])
       (Some [''a'' \<mapsto> DFloat64 y, ''b'' \<mapsto> DInt64 n]) srv =
       ((emptyState (intResource cl)
           \<lparr>st_Raw := [''id'' \<mapsto> StringValue name, ''a'' \<mapsto> Float64Value x]\<rparr>,
         [ErrorDiag ''Value Conversion Error'' (Text ''b'')]),
        srv')"
    using assms
    by (simp add: writeState_def merged [unfolded infos] infos setAttr_def SetAttribute_def
        sch ty dec lookupAny_def sameType_def fixedAttrs_def Let_def raw addDiag_def)
  with merged show ?thesis by simp
qed

theorem backfilled_int_witness:
  "Create (intResource (Some (echoClient [''a'' \<mapsto> DFloat64 1]))) stubLib
     [0xde, 0xad, 0xbe, 0xef] intPlan
     (emptyState (intResource (Some (echoClient [''a'' \<mapsto> DFloat64 1]))), []) [] =
     ((emptyState (intResource (Some (echoClient [''a'' \<mapsto> DFloat64 1])))
         \<lparr>st_Raw := [''id'' \<mapsto> StringValue ''httpserver.tf_deadbeef'',
                     ''a'' \<mapsto> Float64Value 1]\<rparr>,
       [ErrorDiag ''Value Conversion Error'' (Text ''b'')]),
      [''httpserver.tf_deadbeef''])"
proof -
  let ?c = "echoClient [''a'' \<mapsto> DFloat64 1]"
  let ?r = "intResource (Some ?c)"
  have cl: "r_client ?r = Some ?c"
    by (simp add: intResource_def)
  have n: "fullName ?r (generateLabel [0xde, 0xad, 0xbe, 0xef]) = ''httpserver.tf_deadbeef''"
    by (simp add: demo_label fullName_def intResource_def)
  have cr: "CreateResourceInstance ?c nm [] = (None, [nm])" for nm
    by (simp add: echoClient_def)
  have up: "UpdateResourceInstance ?c nm attrs True srv = (None, srv)" for nm attrs srv
    by (simp add: echoClient_def)
  have get: "GetResourceInstance ?c nm srv = (Inr [''a'' \<mapsto> DFloat64 1], srv)" for nm srv
    by (simp add: echoClient_def)
  have infos: "getInfos ?r =
      [\<lparr>kaiakName = ''a'', tfBlock = [], tfField = ''a'', attr = descr ''a'' ''float'' False False\<rparr>,
       \<lparr>kaiakName = ''b'', tfBlock = [], tfField = ''b'', attr = descr ''b'' ''int'' False False\<rparr>]"
    by (simp add: getInfos_def intResource_def buildResourceSchema_def newAttrInfo_plain
        reserved_def seenKey_def)
  have ex: "extractAttrs ?r stubLib intPlan [] =
      ([''a'' \<mapsto> DFloat64 9, ''b'' \<mapsto> DInt64 2], [])"
    by (simp add: extractAttrs_def infos extractSingleAttr_def GetAttribute_def intPlan_def
        known_def ValueFloat64_def)
  have ne: "[''a'' \<mapsto> DFloat64 9, ''b'' \<mapsto> DInt64 2] \<noteq> (Map.empty :: real State)"
    by simp
  note ws = backfilled_int_not_written [OF get, where cl = "Some ?c" and lib = stubLib and y = 9 and n = 2,
      THEN conjunct2]
  show ?thesis
    by (simp add: Create_def Let_def cl n cr ex ne up ws)
qed

end
